theory Spec2Isabelle
  imports Main
begin

section \<open>Values shared by all components\<close>

text \<open>
  Frames are what \<^verbatim>\<open>json.loads\<close> returns and what the builders of
  \<^verbatim>\<open>protocol.py\<close> assemble. A Python \<^verbatim>\<open>dict\<close> with string keys is an
  association list read with \<open>map_of\<close>; Python's \<^verbatim>\<open>None\<close> is \<open>JNull\<close>.
  JSON numbers are modelled as integers (fractional numbers are left out).
\<close>

datatype json =
    JNull
  | JBool bool
  | JInt int
  | JStr string
  | JList "json list"
  | JObj "(string \<times> json) list"

type_synonym bytes = string
type_synonym dict = "(string \<times> json) list"

text \<open>\<^verbatim>\<open>d.get(k, default)\<close> and \<^verbatim>\<open>k in d\<close>.\<close>

definition dict_get :: "dict \<Rightarrow> string \<Rightarrow> json \<Rightarrow> json" where
  "dict_get d k dflt = (case map_of d k of None \<Rightarrow> dflt | Some v \<Rightarrow> v)"

definition dict_has :: "dict \<Rightarrow> string \<Rightarrow> bool" where
  "dict_has d k = (case map_of d k of None \<Rightarrow> False | Some v \<Rightarrow> True)"

text \<open>Python truthiness, as used by \<^verbatim>\<open>if not name\<close> and \<^verbatim>\<open>x or y\<close>.\<close>

fun truthy :: "json \<Rightarrow> bool" where
  "truthy JNull = False"
| "truthy (JBool b) = b"
| "truthy (JInt n) = (n \<noteq> 0)"
| "truthy (JStr s) = (s \<noteq> [])"
| "truthy (JList xs) = (xs \<noteq> [])"
| "truthy (JObj d) = (d \<noteq> [])"

text \<open>
  What the code can raise. \<open>ProtocolError\<close> carries code, message and data as the class in
  \<^verbatim>\<open>protocol.py\<close> does; the other constructors carry the text that \<^verbatim>\<open>str(exc)\<close>
  yields. \<open>BaseException\<close> stands for what Python raises outside the
  \<^verbatim>\<open>Exception\<close> hierarchy (\<^verbatim>\<open>KeyboardInterrupt\<close>, \<^verbatim>\<open>SystemExit\<close>); like
  \<^verbatim>\<open>asyncio.CancelledError\<close>, an \<^verbatim>\<open>except Exception\<close> clause lets it through.
\<close>

datatype exn =
    ProtocolError int string json
  | JSONDecodeError string
  | AttributeError string
  | TypeError string
  | KeyError string
  | ValueError string
  | RuntimeError string
  | Exception string
  | CancelledError
  | BaseException string

fun is_Exception :: "exn \<Rightarrow> bool" where
  "is_Exception (BaseException m) = False"
| "is_Exception CancelledError = False"
| "is_Exception e = True"

fun str_exn :: "exn \<Rightarrow> string" where
  "str_exn (ProtocolError c m d) = m"
| "str_exn (JSONDecodeError m) = m"
| "str_exn (AttributeError m) = m"
| "str_exn (TypeError m) = m"
| "str_exn (KeyError m) = m"
| "str_exn (ValueError m) = m"
| "str_exn (RuntimeError m) = m"
| "str_exn CancelledError = []"
| "str_exn (Exception m) = m"
| "str_exn (BaseException m) = m"


section \<open>Message protocol (\<^verbatim>\<open>protocol.py\<close>)\<close>

definition JSONRPC_VERSION :: string where
  "JSONRPC_VERSION = ''2.0''"

definition PARSE_ERROR :: int where "PARSE_ERROR = - 32700"
definition INVALID_REQUEST :: int where "INVALID_REQUEST = - 32600"
definition METHOD_NOT_FOUND :: int where "METHOD_NOT_FOUND = - 32601"
definition INVALID_PARAMS :: int where "INVALID_PARAMS = - 32602"
definition INTERNAL_ERROR :: int where "INTERNAL_ERROR = - 32603"

definition validate_message :: "json \<Rightarrow> exn + string" where
  "validate_message msg =
     (case msg of
        JObj d \<Rightarrow>
          if dict_get d ''jsonrpc'' JNull \<noteq> JStr JSONRPC_VERSION
          then Inl (ProtocolError INVALID_REQUEST (''Expected jsonrpc='' @ JSONRPC_VERSION) JNull)
          else
            let has_id = dict_has d ''id'';
                has_method = dict_has d ''method'';
                has_result = dict_has d ''result'';
                has_error = dict_has d ''error''
            in if has_method then Inr (if has_id then ''request'' else ''notification'')
               else if has_result \<and> has_id then Inr ''response''
               else if has_error \<and> has_id then Inr ''error''
               else Inl (ProtocolError INVALID_REQUEST ''Cannot determine message type'' JNull)
      | _ \<Rightarrow> Inl (ProtocolError INVALID_REQUEST ''Message must be a JSON object'' JNull))"

definition make_response :: "json \<Rightarrow> json \<Rightarrow> json" where
  "make_response request_id result =
     JObj [(''jsonrpc'', JStr JSONRPC_VERSION), (''id'', request_id), (''result'', result)]"

text \<open>The optional \<^verbatim>\<open>data\<close> argument defaults to \<^verbatim>\<open>None\<close>, here \<open>JNull\<close>.\<close>

definition make_error :: "json \<Rightarrow> int \<Rightarrow> string \<Rightarrow> json \<Rightarrow> json" where
  "make_error request_id code message data =
     (let error = [(''code'', JInt code), (''message'', JStr message)]
                  @ (if data \<noteq> JNull then [(''data'', data)] else [])
      in JObj [(''jsonrpc'', JStr JSONRPC_VERSION), (''id'', request_id), (''error'', JObj error)])"

definition text_content :: "string \<Rightarrow> json" where
  "text_content txt = JObj [(''type'', JStr ''text''), (''text'', JStr txt)]"

definition tool_result_content :: "json list \<Rightarrow> bool \<Rightarrow> json" where
  "tool_result_content content is_error =
     JObj ([(''content'', JList content)] @ (if is_error then [(''isError'', JBool True)] else []))"

definition tools_list_result :: "json list \<Rightarrow> json" where
  "tools_list_result tools = JObj [(''tools'', JList tools)]"

definition resources_list_result :: "json list \<Rightarrow> json" where
  "resources_list_result resources = JObj [(''resources'', JList resources)]"

definition resource_read_result :: "json list \<Rightarrow> json" where
  "resource_read_result contents = JObj [(''contents'', JList contents)]"

definition initialize_result :: "string \<Rightarrow> string \<Rightarrow> string \<Rightarrow> json" where
  "initialize_result server_name server_version protocol_version =
     JObj [(''protocolVersion'', JStr protocol_version),
           (''capabilities'',
              JObj [(''tools'', JObj [(''listChanged'', JBool False)]),
                    (''resources'', JObj [(''subscribe'', JBool False),
                                          (''listChanged'', JBool False)])]),
           (''serverInfo'', JObj [(''name'', JStr server_name),
                                   (''version'', JStr server_version)])]"


section \<open>Capture engine (\<^verbatim>\<open>capture.py\<close>)\<close>

text \<open>
  One \<^verbatim>\<open>CaptureEvent\<close> object. \<open>request_id\<close> is \<^verbatim>\<open>parsed.get("id")\<close>, so a frame
  without an id and a frame whose id is \<^verbatim>\<open>null\<close> both give \<open>JNull\<close>. The slot
  \<^verbatim>\<open>method\<close> is the field \<open>frame_method\<close>.
\<close>

record capture_event =
  event_id :: string
  timestamp_ns :: int
  direction :: string
  stage :: string
  raw_bytes :: bytes
  parsed :: json
  frame_method :: json
  request_id :: json
  parent_protocol_id :: "string option"
  turn :: int
  error :: "string option"
  content_length :: nat
  data_layer :: "json option"
  light_layer :: "json option"
  instinct_layer :: "json option"
  coherence_signature :: "string option"

text \<open>
  The collaborators attached to the engine. They receive the event object. The enrichment
  hook fills the four layer slots: it is modelled by the values it leaves in them, together
  with the exception it raised, if any. The sink and the observer callbacks read the event;
  their result is the exception they raised, if any.
\<close>

type_synonym layers = "json option \<times> json option \<times> json option \<times> string option"
type_synonym bridge = "capture_event \<Rightarrow> layers \<times> exn option"
type_synonym sink = "capture_event \<Rightarrow> exn option"
type_synonym callback = "capture_event \<Rightarrow> exn option"

text \<open>
  What the process takes from outside the repository: the identifier and clock sources (the
  \<open>n\<close>-th value drawn), \<^verbatim>\<open>str\<close> of lists and dicts, and the JSON codec.
\<close>

record env =
  uuid4_hex16 :: "nat \<Rightarrow> string"
  time_ns :: "nat \<Rightarrow> int"
  py_repr :: "json \<Rightarrow> string"
  json_loads :: "bytes \<Rightarrow> exn + json"
  json_dumps :: "json \<Rightarrow> string"

fun digits :: "nat \<Rightarrow> string" where
  "digits n = (if n < 10 then [char_of (48 + n)]
               else digits (n div 10) @ [char_of (48 + n mod 10)])"

declare digits.simps [simp del]

definition str_int :: "int \<Rightarrow> string" where
  "str_int n = (if n < 0 then CHR ''-'' # digits (nat (- n)) else digits (nat n))"

text \<open>\<^verbatim>\<open>str(x)\<close> on a frame value.\<close>

fun py_str :: "env \<Rightarrow> json \<Rightarrow> string" where
  "py_str env JNull = ''None''"
| "py_str env (JBool b) = (if b then ''True'' else ''False'')"
| "py_str env (JInt n) = str_int n"
| "py_str env (JStr s) = s"
| "py_str env (JList xs) = py_repr env (JList xs)"
| "py_str env (JObj d) = py_repr env (JObj d)"

text \<open>
  \<^verbatim>\<open>CaptureEvent.__init__\<close>; \<open>n\<close> counts the events built before. \<^verbatim>\<open>parsed.get\<close> exists
  only on a dict: any other frame value raises \<^verbatim>\<open>AttributeError\<close>.
\<close>

definition CaptureEvent ::
  "env \<Rightarrow> nat \<Rightarrow> string \<Rightarrow> string \<Rightarrow> bytes \<Rightarrow> json \<Rightarrow> int \<Rightarrow> string option \<Rightarrow> string option
   \<Rightarrow> exn + capture_event" where
  "CaptureEvent env n dir stg raw msg ts ppid err =
     (case msg of
        JObj d \<Rightarrow>
          Inr \<lparr> event_id = uuid4_hex16 env n,
                timestamp_ns = (if ts \<noteq> 0 then ts else time_ns env n),
                direction = dir,
                stage = stg,
                raw_bytes = raw,
                parsed = msg,
                frame_method = dict_get d ''method'' (JStr []),
                request_id = dict_get d ''id'' JNull,
                parent_protocol_id = ppid,
                turn = 0,
                error = err,
                content_length = length raw,
                data_layer = None,
                light_layer = None,
                instinct_layer = None,
                coherence_signature = None \<rparr>
      | _ \<Rightarrow> Inl (AttributeError ''object has no attribute get''))"

text \<open>
  The engine. Python keeps references to event objects in \<^verbatim>\<open>_events\<close> and in
  \<^verbatim>\<open>_request_map\<close>, and goes on assigning to an event after it has stored the reference;
  so the objects live in \<open>heap\<close> (the address of an event is its index, in order of
  construction) and both containers hold addresses. \<open>stats\<close> is a
  \<^verbatim>\<open>defaultdict(int)\<close>: every key reads 0 until it is counted.
\<close>

record engine =
  heap :: "capture_event list"
  events :: "nat list"
  turn_counter :: int
  request_map :: "string \<Rightarrow> nat option"
  ucw_bridge :: "bridge option"
  db_sink :: "sink option"
  event_callbacks :: "callback list"
  stats :: "string \<Rightarrow> int"

definition CaptureEngine :: engine where
  "CaptureEngine =
     \<lparr> heap = [], events = [], turn_counter = 0, request_map = (\<lambda>k. None),
       ucw_bridge = None, db_sink = None, event_callbacks = [], stats = (\<lambda>k. 0) \<rparr>"

definition set_ucw_bridge :: "bridge \<Rightarrow> engine \<Rightarrow> engine" where
  "set_ucw_bridge b e = e\<lparr>ucw_bridge := Some b\<rparr>"

definition set_db_sink :: "sink \<Rightarrow> engine \<Rightarrow> engine" where
  "set_db_sink db e = e\<lparr>db_sink := Some db\<rparr>"

definition on_event :: "callback \<Rightarrow> engine \<Rightarrow> engine" where
  "on_event cb e = e\<lparr>event_callbacks := event_callbacks e @ [cb]\<rparr>"

text \<open>\<^verbatim>\<open>try: ... except Exception: log.error(...)\<close> around a call that raised \<open>r\<close>.\<close>

fun swallow :: "exn option \<Rightarrow> exn option" where
  "swallow None = None"
| "swallow (Some ex) = (if is_Exception ex then None else Some ex)"

text \<open>
  The lineage block of \<^verbatim>\<open>capture\<close>, on the event at address \<open>a\<close>: an inbound frame with
  an id is entered in the map and takes the next turn; an outbound frame with an id takes
  the event id and the turn of the event found under its stringified id.
\<close>

definition track_lineage :: "env \<Rightarrow> string \<Rightarrow> nat \<Rightarrow> engine \<Rightarrow> engine" where
  "track_lineage env dir a e =
     (let rid = request_id (heap e ! a);
          e1 = (if dir = ''in'' \<and> rid \<noteq> JNull
                then let e' = e\<lparr>request_map := (request_map e)(py_str env rid \<mapsto> a),
                                 turn_counter := turn_counter e + 1\<rparr>
                     in e'\<lparr>heap := (heap e')[a := (heap e' ! a)\<lparr>turn := turn_counter e'\<rparr>]\<rparr>
                else e)
      in if dir = ''out'' \<and> rid \<noteq> JNull
         then (case request_map e1 (py_str env rid) of
                 None \<Rightarrow> e1
               | Some p \<Rightarrow>
                   e1\<lparr>heap := (heap e1)[a := (heap e1 ! a)
                          \<lparr>parent_protocol_id := Some (event_id (heap e1 ! p)),
                           turn := turn (heap e1 ! p)\<rparr>]\<rparr>)
         else e1)"

text \<open>The enrichment block: the bridge, when attached, runs on the event at \<open>a\<close>.\<close>

definition enrich :: "nat \<Rightarrow> engine \<Rightarrow> exn option \<times> engine" where
  "enrich a e =
     (case ucw_bridge e of
        None \<Rightarrow> (None, e)
      | Some b \<Rightarrow>
          (case b (heap e ! a) of
             ((dl, ll, il, cs), r) \<Rightarrow>
               (swallow r,
                e\<lparr>heap := (heap e)[a := (heap e ! a)
                      \<lparr>data_layer := dl, light_layer := ll, instinct_layer := il,
                       coherence_signature := cs\<rparr>]\<rparr>)))"

definition persist :: "nat \<Rightarrow> engine \<Rightarrow> exn option" where
  "persist a e =
     (case db_sink e of
        None \<Rightarrow> None
      | Some db \<Rightarrow> swallow (db (heap e ! a)))"

fun notify :: "callback list \<Rightarrow> capture_event \<Rightarrow> exn option" where
  "notify [] ev = None"
| "notify (cb # cbs) ev =
     (case swallow (cb ev) of
        Some ex \<Rightarrow> Some ex
      | None \<Rightarrow> notify cbs ev)"

definition count_stat :: "string \<Rightarrow> (string \<Rightarrow> int) \<Rightarrow> (string \<Rightarrow> int)" where
  "count_stat k st = st(k := st k + 1)"

text \<open>\<^verbatim>\<open>stage = "received" if direction == "in" else "sent"\<close>\<close>

definition stage_of :: "string \<Rightarrow> string" where
  "stage_of dir = (if dir = ''in'' then ''received'' else ''sent'')"

text \<open>
  \<^verbatim>\<open>CaptureEngine.capture\<close>. The result is the exception that left the call, if any, and
  the engine as the call left it.
\<close>

definition capture ::
  "env \<Rightarrow> bytes \<Rightarrow> json \<Rightarrow> int \<Rightarrow> string \<Rightarrow> string option \<Rightarrow> string option \<Rightarrow> engine
   \<Rightarrow> exn option \<times> engine" where
  "capture env raw msg ts dir ppid err e =
     (let stg = stage_of dir;
          a = length (heap e)
      in case CaptureEvent env a dir stg raw msg ts ppid err of
           Inl ex \<Rightarrow> (Some ex, e)
         | Inr event \<Rightarrow>
             (case enrich a (track_lineage env dir a (e\<lparr>heap := heap e @ [event]\<rparr>)) of
                (Some ex, e2) \<Rightarrow> (Some ex, e2)
              | (None, e2) \<Rightarrow>
                  let e3 = e2\<lparr>events := events e2 @ [a],
                              stats := count_stat ''total''
                                         (count_stat (dir @ ''_'' @ stg) (stats e2))\<rparr>
                  in (case persist a e3 of
                        Some ex \<Rightarrow> (Some ex, e3)
                      | None \<Rightarrow> (notify (event_callbacks e3) (heap e3 ! a), e3))))"

definition turn_count :: "engine \<Rightarrow> int" where
  "turn_count e = turn_counter e"

definition event_count :: "engine \<Rightarrow> nat" where
  "event_count e = length (events e)"


subsection \<open>Sessions of the engine\<close>

text \<open>
  A session is what its owner does with one engine, in order: calls of \<open>capture\<close> (whose
  caller goes on after an exception) and the attachment of collaborators. The properties of
  turns and lineage below are stated over sessions that start from a new engine.
\<close>

datatype op =
    Capture bytes json int string "string option" "string option"
  | SetBridge bridge
  | SetSink sink
  | OnEvent callback

fun apply_op :: "env \<Rightarrow> op \<Rightarrow> engine \<Rightarrow> engine" where
  "apply_op env (Capture raw msg ts dir ppid err) e = snd (capture env raw msg ts dir ppid err e)"
| "apply_op env (SetBridge b) e = set_ucw_bridge b e"
| "apply_op env (SetSink db) e = set_db_sink db e"
| "apply_op env (OnEvent cb) e = on_event cb e"

fun session :: "env \<Rightarrow> op list \<Rightarrow> engine \<Rightarrow> engine" where
  "session env [] e = e"
| "session env (c # cs) e = session env cs (apply_op env c e)"

text \<open>The id a captured frame carries (\<open>JNull\<close> when it has none, or is not a map).\<close>

fun frame_id :: "op \<Rightarrow> json" where
  "frame_id (Capture raw (JObj d) ts dir ppid err) = dict_get d ''id'' JNull"
| "frame_id c = JNull"

fun frame_has_method :: "op \<Rightarrow> bool" where
  "frame_has_method (Capture raw (JObj d) ts dir ppid err) = dict_has d ''method''"
| "frame_has_method c = False"

fun inbound :: "op \<Rightarrow> bool" where
  "inbound (Capture raw msg ts dir ppid err) = (dir = ''in'')"
| "inbound c = False"

text \<open>The inbound frames that carry a non-null id, and those stored under the key \<open>k\<close>.\<close>

definition tracked :: "op \<Rightarrow> bool" where
  "tracked c = (inbound c \<and> frame_id c \<noteq> JNull)"

definition tracked_as :: "env \<Rightarrow> string \<Rightarrow> op \<Rightarrow> bool" where
  "tracked_as env k c = (tracked c \<and> py_str env (frame_id c) = k)"

text \<open>The number of tracked frames among \<open>cs\<close>.\<close>

definition tracked_count :: "op list \<Rightarrow> int" where
  "tracked_count cs = int (length (filter tracked cs))"

text \<open>
  The event object built for frame number \<open>n\<close> of the session \<open>cs\<close>, read in the state the
  whole session leaves: its address is the number of events built before it.
\<close>

definition event_of :: "env \<Rightarrow> op list \<Rightarrow> nat \<Rightarrow> capture_event" where
  "event_of env cs n =
     heap (session env cs CaptureEngine) ! length (heap (session env (take n cs) CaptureEngine))"

text \<open>A collaborator's outcome that is a normal return or an \<^verbatim>\<open>Exception\<close>.\<close>

definition only_Exception :: "exn option \<Rightarrow> bool" where
  "only_Exception r = (case r of None \<Rightarrow> True | Some x \<Rightarrow> is_Exception x)"

text \<open>
  An environment for evaluating the model on concrete inputs: identifiers and clock values
  are numbered, and the codec knows the lines used below.
\<close>

definition sample_loads :: "bytes \<Rightarrow> exn + json" where
  \<open>sample_loads raw =
     (if raw = ''{"jsonrpc":"2.0","id":1,"method":"ping"}'' @ [CHR 0x0A]
      then Inr (JObj [(''jsonrpc'', JStr ''2.0''), (''id'', JInt 1), (''method'', JStr ''ping'')])
      else if raw = ''[]'' @ [CHR 0x0A]
      then Inr (JList [])
      else Inl (JSONDecodeError ''Expecting value: line 1 column 1 (char 0)''))\<close>

definition sample_dumps :: "json \<Rightarrow> bytes" where
  \<open>sample_dumps j =
     (if j = JObj [(''jsonrpc'', JStr ''2.0''), (''id'', JInt 1), (''result'', JObj [])]
      then ''{"jsonrpc":"2.0","id":1,"result":{}}''
      else if j = JObj [(''jsonrpc'', JStr ''2.0''), (''id'', JInt 7), (''result'', JObj [])]
      then ''{"jsonrpc":"2.0","id":7,"result":{}}''
      else ''{}'')\<close>

definition sample_env :: env where
  "sample_env =
     \<lparr> uuid4_hex16 = (\<lambda>n. replicate (16 - length (digits n)) CHR ''0'' @ digits n),
       time_ns = (\<lambda>n. 1000 + int n),
       py_repr = (\<lambda>j. ''[]''),
       json_loads = sample_loads,
       json_dumps = sample_dumps \<rparr>"


section \<open>Frame transport (\<^verbatim>\<open>transport.py\<close>)\<close>

text \<open>
  \<open>reader\<close> and \<open>stdout\<close> are \<^verbatim>\<open>_reader\<close> and \<^verbatim>\<open>_stdout\<close>: the first says whether
  the stream reader exists, the second is \<open>None\<close> until \<^verbatim>\<open>start\<close> and then holds the chunks
  written and flushed so far. The lines still to come on stdin are outside the object and are
  passed to \<open>read_message\<close>, which returns those it left. \<open>clock\<close> counts the readings
  of \<^verbatim>\<open>time.time_ns()\<close>. The capture hook is a parameter with a state of its own, as
  \<^verbatim>\<open>on_capture\<close> is in the class.
\<close>

record transport =
  running :: bool
  reader :: bool
  stdout :: "bytes list option"
  clock :: nat

type_synonym 's on_capture =
  "bytes \<Rightarrow> json \<Rightarrow> int \<Rightarrow> string \<Rightarrow> string option \<Rightarrow> string option \<Rightarrow> 's \<Rightarrow> exn option \<times> 's"

definition RawStdioTransport :: transport where
  "RawStdioTransport = \<lparr> running = False, reader = False, stdout = None, clock = 0 \<rparr>"

definition start :: "transport \<Rightarrow> transport" where
  "start t = t\<lparr>reader := True, stdout := Some [], running := True\<rparr>"

definition close :: "transport \<Rightarrow> transport" where
  "close t = t\<lparr>running := False\<rparr>"

text \<open>
  \<^verbatim>\<open>StreamReader.readline\<close> with \<^verbatim>\<open>limit=2**16\<close>. The input is the list of the lines to
  come, each with its newline, the last one possibly without. The reader yields the empty
  bytes at end of input. It compares the limit with the position of the newline
  (\<^verbatim>\<open>isep > self._limit\<close>), that is with the length of the line without its newline, and
  with the length of the whole chunk when the input ends without one; a line over the limit
  is dropped and \<^verbatim>\<open>ValueError\<close> is raised.
\<close>

definition chunk :: "bytes \<Rightarrow> bytes" where
  "chunk l = (if l \<noteq> [] \<and> last l = CHR 0x0A then butlast l else l)"

fun readline :: "bytes list \<Rightarrow> (exn + bytes) \<times> bytes list" where
  "readline [] = (Inr [], [])"
| "readline (l # ls) =
     (if 2 ^ 16 < int (length (chunk l))
      then (Inl (ValueError (if chunk l = l
                             then ''Separator is not found, and chunk exceed the limit''
                             else ''Separator is found, but chunk is longer than limit'')), ls)
      else (Inr l, ls))"

text \<open>
  The outer handlers of \<open>read_message\<close>:
  \<^verbatim>\<open>except asyncio.CancelledError: raise\<close>, then \<^verbatim>\<open>except Exception: ...; return None\<close>.
\<close>

definition read_failed :: "exn \<Rightarrow> exn + (bytes \<times> json) option" where
  "read_failed ex = (if is_Exception ex then Inr None else Inl ex)"

definition read_message ::
  "env \<Rightarrow> 's on_capture \<Rightarrow> bytes list \<Rightarrow> transport \<times> 's
   \<Rightarrow> (exn + (bytes \<times> json) option) \<times> bytes list \<times> transport \<times> 's" where
  "read_message env on_capture inp ts =
     (case ts of (t, s) \<Rightarrow>
        if \<not> reader t then (Inl (RuntimeError ''Transport not started''), inp, t, s)
        else
          (case readline inp of
             (Inl ex, rest) \<Rightarrow> (read_failed ex, rest, t, s)
           | (Inr raw, rest) \<Rightarrow>
               if raw = [] then (Inr None, rest, t, s)
               else
                 let now = time_ns env (clock t);
                     t1 = t\<lparr>clock := Suc (clock t)\<rparr>
                 in (case json_loads env raw of
                       Inl (JSONDecodeError m) \<Rightarrow>
                         (case on_capture raw (JObj []) now ''in'' None
                                 (Some (''JSON parse error: '' @ m)) s of
                            (Some ex, s') \<Rightarrow> (read_failed ex, rest, t1, s')
                          | (None, s') \<Rightarrow> (Inr None, rest, t1, s'))
                     | Inl ex \<Rightarrow> (read_failed ex, rest, t1, s)
                     | Inr msg \<Rightarrow>
                         (case on_capture raw msg now ''in'' None None s of
                            (Some ex, s') \<Rightarrow> (read_failed ex, rest, t1, s')
                          | (None, s') \<Rightarrow> (Inr (Some (raw, msg)), rest, t1, s')))))"

text \<open>\<open>rid\<close> is the keyword argument \<^verbatim>\<open>request_id\<close>, \<open>JNull\<close> when it is not given.\<close>

definition write_message ::
  "env \<Rightarrow> 's on_capture \<Rightarrow> json \<Rightarrow> json \<Rightarrow> transport \<times> 's \<Rightarrow> exn option \<times> transport \<times> 's" where
  "write_message env on_capture message rid ts =
     (case ts of (t, s) \<Rightarrow>
        (case stdout t of
           None \<Rightarrow> (Some (RuntimeError ''Transport not started''), t, s)
         | Some out \<Rightarrow>
             let raw = json_dumps env message @ [CHR 0x0A];
                 now = time_ns env (clock t);
                 t1 = t\<lparr>clock := Suc (clock t)\<rparr>
             in (case on_capture raw message now ''out''
                        (if rid \<noteq> JNull then Some (py_str env rid) else None) None s of
                   (Some ex, s') \<Rightarrow> (Some ex, t1, s')
                 | (None, s') \<Rightarrow> (None, t1\<lparr>stdout := Some (out @ [raw])\<rparr>, s'))))"


section \<open>Method router (\<^verbatim>\<open>router.py\<close>)\<close>

text \<open>
  A tool handler takes the tool name and the arguments, a resource handler the URI; each
  returns a payload or raises. \<open>handler_calls\<close> is not a field of the class: it records
  which tool handlers were awaited, in order, so that "a handler ran" can be stated.
\<close>

type_synonym tool_handler = "json \<Rightarrow> json \<Rightarrow> exn + json"
type_synonym resource_handler = "json \<Rightarrow> exn + json"

record router =
  tools :: "json list"
  tool_handlers :: "(json list \<times> tool_handler) list"
  resources :: "json list"
  resource_handlers :: "resource_handler list"
  initialized :: bool
  handler_calls :: "(json \<times> json) list"

definition Router :: router where
  "Router = \<lparr> tools = [], tool_handlers = [], resources = [], resource_handlers = [],
              initialized = False, handler_calls = [] \<rparr>"

text \<open>Membership in a Python set: the key must be hashable, and \<^verbatim>\<open>True == 1\<close>.\<close>

fun hashable :: "json \<Rightarrow> bool" where
  "hashable (JList xs) = False"
| "hashable (JObj d) = False"
| "hashable j = True"

fun as_int :: "json \<Rightarrow> int option" where
  "as_int (JBool b) = Some (if b then 1 else 0)"
| "as_int (JInt n) = Some n"
| "as_int j = None"

definition py_eq :: "json \<Rightarrow> json \<Rightarrow> bool" where
  "py_eq a b = (case (as_int a, as_int b) of (Some m, Some n) \<Rightarrow> m = n | _ \<Rightarrow> a = b)"

definition py_in :: "json \<Rightarrow> json list \<Rightarrow> bool" where
  "py_in x xs = list_ex (py_eq x) xs"

text \<open>\<^verbatim>\<open>t["name"]\<close> as an element of the set of names.\<close>

fun tool_name :: "json \<Rightarrow> exn + json" where
  "tool_name (JObj d) =
     (case map_of d ''name'' of
        None \<Rightarrow> Inl (KeyError ''name'')
      | Some n \<Rightarrow> if hashable n then Inr n else Inl (TypeError ''unhashable type''))"
| "tool_name j = Inl (TypeError ''object is not subscriptable by name'')"

fun tool_names_of :: "json list \<Rightarrow> exn + json list" where
  "tool_names_of [] = Inr []"
| "tool_names_of (t # ts) =
     (case tool_name t of
        Inl ex \<Rightarrow> Inl ex
      | Inr n \<Rightarrow> (case tool_names_of ts of Inl ex \<Rightarrow> Inl ex | Inr ns \<Rightarrow> Inr (n # ns)))"

definition register_tools_module :: "json list \<Rightarrow> tool_handler \<Rightarrow> router \<Rightarrow> exn option \<times> router" where
  "register_tools_module tools_list handler r =
     (let r1 = r\<lparr>tools := tools r @ tools_list\<rparr>
      in case tool_names_of tools_list of
           Inl ex \<Rightarrow> (Some ex, r1)
         | Inr names \<Rightarrow> (None, r1\<lparr>tool_handlers := tool_handlers r1 @ [(names, handler)]\<rparr>))"

definition register_resources :: "json list \<Rightarrow> resource_handler \<Rightarrow> router \<Rightarrow> router" where
  "register_resources rs handler r =
     r\<lparr>resources := resources r @ rs, resource_handlers := resource_handlers r @ [handler]\<rparr>"

definition SERVER_NAME :: string where "SERVER_NAME = ''ucw''"
definition SERVER_VERSION :: string where "SERVER_VERSION = ''0.1.0''"
definition PROTOCOL_VERSION :: string where "PROTOCOL_VERSION = ''2024-11-05''"

text \<open>
  \<^verbatim>\<open>_handle_initialize\<close>: the log line reads \<^verbatim>\<open>params.get('clientInfo', {}).get(...)\<close>,
  which needs both values to be dicts.
\<close>

definition handle_initialize :: "json \<Rightarrow> exn + json" where
  "handle_initialize params =
     (case params of
        JObj p \<Rightarrow>
          (case dict_get p ''clientInfo'' (JObj []) of
             JObj ci \<Rightarrow> Inr (initialize_result SERVER_NAME SERVER_VERSION PROTOCOL_VERSION)
           | _ \<Rightarrow> Inl (AttributeError ''object has no attribute get''))
      | _ \<Rightarrow> Inl (AttributeError ''object has no attribute get''))"

text \<open>
  The loop of \<^verbatim>\<open>_handle_tools_call\<close> over the registered modules: the first module that
  has the name decides; the exception of its handler becomes a payload marked as an error.
\<close>

fun dispatch_tool ::
  "env \<Rightarrow> (json list \<times> tool_handler) list \<Rightarrow> json \<Rightarrow> json \<Rightarrow> router \<Rightarrow> (exn + json) \<times> router" where
  "dispatch_tool env [] name args r =
     (Inl (ProtocolError METHOD_NOT_FOUND (''Unknown tool: '' @ py_str env name) JNull), r)"
| "dispatch_tool env ((tool_names, handler) # rest) name args r =
     (if \<not> hashable name then (Inl (TypeError ''unhashable type''), r)
      else if py_in name tool_names
      then (let r' = r\<lparr>handler_calls := handler_calls r @ [(name, args)]\<rparr>
            in case handler name args of
                 Inr result \<Rightarrow> (Inr result, r')
               | Inl exc \<Rightarrow>
                   if is_Exception exc
                   then (Inr (tool_result_content
                                [text_content (''Tool error: '' @ str_exn exc)] True), r')
                   else (Inl exc, r'))
      else dispatch_tool env rest name args r)"

definition handle_tools_call :: "env \<Rightarrow> json \<Rightarrow> router \<Rightarrow> (exn + json) \<times> router" where
  "handle_tools_call env params r =
     (case params of
        JObj p \<Rightarrow>
          let name = dict_get p ''name'' (JStr []);
              args = dict_get p ''arguments'' (JObj [])
          in if \<not> truthy name
             then (Inl (ProtocolError INVALID_PARAMS ''Missing tool name'' JNull), r)
             else dispatch_tool env (tool_handlers r) name args r
      | _ \<Rightarrow> (Inl (AttributeError ''object has no attribute get''), r))"

fun read_resource :: "env \<Rightarrow> resource_handler list \<Rightarrow> json \<Rightarrow> exn + json" where
  "read_resource env [] uri =
     Inl (ProtocolError INVALID_PARAMS (''Resource not found: '' @ py_str env uri) JNull)"
| "read_resource env (handler # rest) uri =
     (case handler uri of
        Inl exc \<Rightarrow>
          if is_Exception exc
          then Inl (ProtocolError INTERNAL_ERROR (''Resource error: '' @ str_exn exc) JNull)
          else Inl exc
      | Inr content \<Rightarrow>
          if content \<noteq> JNull
          then Inr (resource_read_result
                      [JObj [(''uri'', uri), (''mimeType'', JStr ''text/plain''),
                             (''text'', content)]])
          else read_resource env rest uri)"

definition handle_resources_read :: "env \<Rightarrow> json \<Rightarrow> router \<Rightarrow> exn + json" where
  "handle_resources_read env params r =
     (case params of
        JObj p \<Rightarrow>
          let uri = dict_get p ''uri'' (JStr [])
          in if \<not> truthy uri
             then Inl (ProtocolError INVALID_PARAMS ''Missing resource URI'' JNull)
             else read_resource env (resource_handlers r) uri
      | _ \<Rightarrow> Inl (AttributeError ''object has no attribute get''))"

text \<open>\<^verbatim>\<open>Router.route\<close>; the payload \<open>JNull\<close> is \<^verbatim>\<open>None\<close>, "no response".\<close>

definition route :: "env \<Rightarrow> string \<Rightarrow> json \<Rightarrow> router \<Rightarrow> (exn + json) \<times> router" where
  "route env msg_type msg r =
     (case msg of
        JObj d \<Rightarrow>
          let meth = dict_get d ''method'' (JStr []);
              params = dict_get d ''params'' (JObj [])
          in if meth = JStr ''initialize'' then (handle_initialize params, r)
             else if meth = JStr ''initialized'' \<or> meth = JStr ''notifications/initialized''
             then (Inr JNull, r\<lparr>initialized := True\<rparr>)
             else if meth = JStr ''notifications/cancelled'' then (Inr JNull, r)
             else if meth = JStr ''ping'' then (Inr (JObj []), r)
             else if meth = JStr ''tools/list'' then (Inr (tools_list_result (tools r)), r)
             else if meth = JStr ''tools/call'' then handle_tools_call env params r
             else if meth = JStr ''resources/list''
             then (Inr (resources_list_result (resources r)), r)
             else if meth = JStr ''resources/read'' then (handle_resources_read env params r, r)
             else (Inl (ProtocolError METHOD_NOT_FOUND
                          (''Unknown method: '' @ py_str env meth) JNull), r)
      | _ \<Rightarrow> (Inl (AttributeError ''object has no attribute get''), r))"


section \<open>Server orchestrator (\<^verbatim>\<open>server.py\<close>)\<close>

text \<open>
  The persistence sink \<^verbatim>\<open>CaptureDB\<close> of \<^verbatim>\<open>db/sqlite.py\<close>, as far as the orchestrator
  uses it. \<^verbatim>\<open>close\<close> finalises and closes an open connection; called again, it finds the
  connection object still set and the statement on the closed connection raises.
  \<^verbatim>\<open>store_event\<close> catches every \<^verbatim>\<open>Exception\<close> itself.
\<close>

datatype connection = Open | Closed

record capture_db =
  conn :: "connection option"
  session_id :: "string option"

definition CaptureDB :: capture_db where
  "CaptureDB = \<lparr> conn = None, session_id = None \<rparr>"

definition store_event :: sink where
  "store_event ev = None"

definition db_close :: "capture_db \<Rightarrow> exn option \<times> capture_db" where
  "db_close db =
     (case (conn db, session_id db) of
        (Some Open, Some sid) \<Rightarrow> (None, db\<lparr>conn := Some Closed\<rparr>)
      | (Some Closed, Some sid) \<Rightarrow>
          (Some (Exception ''Cannot operate on a closed database.''), db)
      | _ \<Rightarrow> (None, db))"

text \<open>
  What the orchestrator takes from outside: the enrichment adapter, the outcome of
  \<^verbatim>\<open>CaptureDB.initialize\<close> (the exception it raises, if any, and the state it leaves the
  database object in), and whether the event loop runs the pending initialisation task while
  the \<open>n\<close>-th read waits for input.
\<close>

record services =
  adapter :: bridge
  db_initialize :: "exn option \<times> capture_db"
  init_scheduled :: "nat \<Rightarrow> bool"

datatype task = Pending | Finished | Cancelled

record server =
  srv_capture :: engine
  srv_transport :: transport
  srv_router :: router
  srv_db :: "capture_db option"
  srv_embedding_pipeline :: bool
  srv_running :: bool
  srv_db_ready :: bool
  srv_db_init_task :: "task option"
  srv_handshake_complete :: bool

definition RawMCPServer :: server where
  "RawMCPServer =
     \<lparr> srv_capture = CaptureEngine, srv_transport = RawStdioTransport, srv_router = Router,
       srv_db = None, srv_embedding_pipeline = False, srv_running = False,
       srv_db_ready = False, srv_db_init_task = None, srv_handshake_complete = False \<rparr>"

text \<open>
  \<^verbatim>\<open>_init_db_background\<close>, run in one piece (the coroutine never suspends). The result is
  the exception the task ends with, which \<^verbatim>\<open>except Exception\<close> does not catch.
\<close>

definition init_db_background :: "services \<Rightarrow> server \<Rightarrow> exn option \<times> server" where
  "init_db_background sv s =
     (case db_initialize sv of
        (Some ex, db) \<Rightarrow>
          (swallow (Some ex), s\<lparr>srv_db := Some db, srv_db_init_task := Some Finished\<rparr>)
      | (None, db) \<Rightarrow>
          (None, s\<lparr>srv_db := Some db,
                   srv_capture := set_db_sink store_event (srv_capture s),
                   srv_embedding_pipeline := True,
                   srv_db_ready := True,
                   srv_db_init_task := Some Finished\<rparr>))"

definition ensure_db_ready :: "services \<Rightarrow> server \<Rightarrow> exn option \<times> server" where
  "ensure_db_ready sv s =
     (if srv_db_ready s then (None, s)
      else (case srv_db_init_task s of
              Some Pending \<Rightarrow> init_db_background sv s
            | _ \<Rightarrow> (None, s)))"

text \<open>\<^verbatim>\<open>await self._transport.write_message(message, request_id=rid)\<close>.\<close>

definition send :: "env \<Rightarrow> json \<Rightarrow> json \<Rightarrow> server \<Rightarrow> exn option \<times> server" where
  "send env message rid s =
     (case write_message env (capture env) message rid (srv_transport s, srv_capture s) of
        (r, t, e) \<Rightarrow> (r, s\<lparr>srv_transport := t, srv_capture := e\<rparr>))"

text \<open>The body of the \<^verbatim>\<open>try\<close> in \<^verbatim>\<open>_handle_message\<close>.\<close>

definition attempt :: "env \<Rightarrow> services \<Rightarrow> json \<Rightarrow> json \<Rightarrow> json \<Rightarrow> server \<Rightarrow> exn option \<times> server" where
  "attempt env sv msg rid meth s =
     (case validate_message msg of
        Inl ex \<Rightarrow> (Some ex, s)
      | Inr msg_type \<Rightarrow>
          (case (if meth = JStr ''tools/call'' then ensure_db_ready sv s else (None, s)) of
             (Some ex, s1) \<Rightarrow> (Some ex, s1)
           | (None, s1) \<Rightarrow>
               (case route env msg_type msg (srv_router s1) of
                  (Inl ex, r') \<Rightarrow> (Some ex, s1\<lparr>srv_router := r'\<rparr>)
                | (Inr result, r') \<Rightarrow>
                    if result = JNull then (None, s1\<lparr>srv_router := r'\<rparr>)
                    else send env (make_response rid result) rid (s1\<lparr>srv_router := r'\<rparr>))))"

definition handle_message :: "env \<Rightarrow> services \<Rightarrow> json \<Rightarrow> server \<Rightarrow> exn option \<times> server" where
  "handle_message env sv msg s =
     (case msg of
        JObj d \<Rightarrow>
          let rid = dict_get d ''id'' JNull;
              meth = dict_get d ''method'' (JStr []);
              s1 = (if meth = JStr ''initialized'' \<or> meth = JStr ''notifications/initialized''
                    then s\<lparr>srv_handshake_complete := True\<rparr> else s)
          in (case attempt env sv msg rid meth s1 of
                (None, s2) \<Rightarrow> (None, s2)
              | (Some (ProtocolError code m dat), s2) \<Rightarrow>
                  if rid \<noteq> JNull then send env (make_error rid code m dat) rid s2
                  else (None, s2)
              | (Some ex, s2) \<Rightarrow>
                  if is_Exception ex
                  then (if rid \<noteq> JNull
                        then send env (make_error rid INTERNAL_ERROR (str_exn ex) JNull) rid s2
                        else (None, s2))
                  else (Some ex, s2))
      | _ \<Rightarrow> (Some (AttributeError ''object has no attribute get''), s))"

definition shutdown :: "server \<Rightarrow> exn option \<times> server" where
  "shutdown s =
     (if \<not> srv_running s then (None, s)
      else
        let s1 = s\<lparr>srv_running := False\<rparr>;
            s2 = (case srv_db_init_task s1 of
                    Some Pending \<Rightarrow> s1\<lparr>srv_db_init_task := Some Cancelled\<rparr>
                  | _ \<Rightarrow> s1);
            s3 = s2\<lparr>srv_transport := close (srv_transport s2)\<rparr>
        in (case srv_db s3 of
              None \<Rightarrow> (None, s3)
            | Some db \<Rightarrow> (case db_close db of (r, db') \<Rightarrow> (r, s3\<lparr>srv_db := Some db'\<rparr>))))"

text \<open>
  The \<^verbatim>\<open>while self._running\<close> loop of \<^verbatim>\<open>run\<close>, on the lines \<open>inp\<close> still to come;
  \<open>n\<close> counts the reads. The result is the exception that leaves the loop, the input not
  read, and the server. Signals are not modelled.
\<close>

function serve ::
  "env \<Rightarrow> services \<Rightarrow> nat \<Rightarrow> bytes list \<Rightarrow> server \<Rightarrow> exn option \<times> bytes list \<times> server" where
  "serve env sv n inp s =
     (if \<not> srv_running s then (None, inp, s)
      else
        let s0 = (if init_scheduled sv n \<and> srv_db_init_task s = Some Pending
                  then snd (init_db_background sv s) else s)
        in (case read_message env (capture env) inp (srv_transport s0, srv_capture s0) of
              (Inl ex, rest, t, e) \<Rightarrow> (Some ex, rest, s0\<lparr>srv_transport := t, srv_capture := e\<rparr>)
            | (Inr None, rest, t, e) \<Rightarrow> (None, rest, s0\<lparr>srv_transport := t, srv_capture := e\<rparr>)
            | (Inr (Some (raw, msg)), rest, t, e) \<Rightarrow>
                (case handle_message env sv msg (s0\<lparr>srv_transport := t, srv_capture := e\<rparr>) of
                   (Some ex, s2) \<Rightarrow> (Some ex, rest, s2)
                 | (None, s2) \<Rightarrow> serve env sv (Suc n) rest s2)))"
  by pat_completeness auto
termination
proof (relation "measure (\<lambda>(env, sv, n, inp, s). length inp)")
  show "wf (measure (\<lambda>(env, sv, n, inp, s). length inp))"
    by simp
next
  fix env :: env and sv :: services and n :: nat and inp :: "bytes list" and s s0 s2 :: server
    and x :: "(exn + (bytes \<times> json) option) \<times> bytes list \<times> transport \<times> engine"
    and res :: "exn + (bytes \<times> json) option" and y :: "bytes list \<times> transport \<times> engine"
    and rest :: "bytes list" and z :: "transport \<times> engine" and t :: transport and e :: engine
    and got :: "(bytes \<times> json) option" and rm :: "bytes \<times> json" and raw :: bytes and msg :: json
  assume rd: "(res, y) = read_message env (capture env) inp (srv_transport s0, srv_capture s0)"
    and y: "(rest, z) = y" and res: "res = Inr got" and got: "got = Some rm"
  have "read_message env (capture env) inp (srv_transport s0, srv_capture s0) = (Inr (Some rm), rest, z)"
    using rd y res got by (metis)
  then have "length rest < length inp"
    by (cases inp)
      (auto simp: read_message_def read_failed_def Let_def
            split: if_splits sum.splits prod.splits option.splits exn.splits)
  then show "((env, sv, Suc n, rest, s2), (env, sv, n, inp, s)) \<in> measure (\<lambda>(env, sv, n, inp, s). length inp)"
    by simp
qed

declare serve.simps [simp del]

text \<open>
  \<^verbatim>\<open>RawMCPServer.run\<close> on the input \<open>stdin\<close>: it attaches the adapter, starts the
  transport, creates the initialisation task, serves, and shuts down in \<^verbatim>\<open>finally\<close>.
  \<^verbatim>\<open>CancelledError\<close> and every \<^verbatim>\<open>Exception\<close> from the loop are logged and dropped.
\<close>

definition run :: "env \<Rightarrow> services \<Rightarrow> bytes list \<Rightarrow> server \<Rightarrow> exn option \<times> bytes list \<times> server" where
  "run env sv stdin s =
     (let s1 = s\<lparr>srv_capture := set_ucw_bridge (adapter sv) (srv_capture s)\<rparr>;
          s2 = s1\<lparr>srv_transport := start (srv_transport s1)\<rparr>;
          s3 = s2\<lparr>srv_db_init_task := Some Pending\<rparr>;
          s4 = s3\<lparr>srv_running := True\<rparr>
      in (case serve env sv 0 stdin s4 of
            (r, rest, s5) \<Rightarrow>
              (case shutdown s5 of
                 (Some ex, s6) \<Rightarrow> (Some ex, rest, s6)
               | (None, s6) \<Rightarrow>
                   (case r of
                      None \<Rightarrow> (None, rest, s6)
                    | Some ex \<Rightarrow>
                        if ex = CancelledError \<or> is_Exception ex then (None, rest, s6)
                        else (Some ex, rest, s6)))))"

text \<open>Collaborators for evaluating the orchestrator on concrete inputs.\<close>

definition sample_services :: services where
  "sample_services =
     \<lparr> adapter = (\<lambda>ev. ((None, None, None, None), None)),
       db_initialize = (None, \<lparr> conn = Some Open, session_id = Some ''mcp-1'' \<rparr>),
       init_scheduled = (\<lambda>n. False) \<rparr>"


section \<open>Auxiliary definitions for the proofs and concrete inputs\<close>

text \<open>
  The engine as \<open>capture\<close> leaves it after building the event, the lineage block and the
  enrichment block, before the event is appended and counted.
\<close>

definition staged ::
  "env \<Rightarrow> bytes \<Rightarrow> json \<Rightarrow> int \<Rightarrow> string \<Rightarrow> string option \<Rightarrow> string option \<Rightarrow> engine \<Rightarrow> engine" where
  "staged env raw msg ts dir ppid err e =
     (case CaptureEvent env (length (heap e)) dir (stage_of dir) raw msg ts ppid err of
        Inl ex \<Rightarrow> e
      | Inr event \<Rightarrow>
          snd (enrich (length (heap e))
                 (track_lineage env dir (length (heap e)) (e\<lparr>heap := heap e @ [event]\<rparr>))))"

text \<open>A request, a notification and a second request, all inbound.\<close>

definition sample_session :: "op list" where
  "sample_session =
     [Capture ''{}'' (JObj [(''jsonrpc'', JStr ''2.0''), (''id'', JInt 1), (''method'', JStr ''ping'')])
        1000 ''in'' None None,
      Capture ''{}'' (JObj [(''jsonrpc'', JStr ''2.0''), (''method'', JStr ''initialized'')])
        2000 ''in'' None None,
      Capture ''{}'' (JObj [(''jsonrpc'', JStr ''2.0''), (''id'', JInt 2), (''method'', JStr ''tools/list'')])
        3000 ''in'' None None]"

text \<open>Requests 10 and 11 arrive, then the response to 11 is written while 10 is in flight.\<close>

definition inflight_session :: "op list" where
  "inflight_session =
     [Capture ''{}'' (JObj [(''jsonrpc'', JStr ''2.0''), (''id'', JInt 10), (''method'', JStr ''tools/call'')])
        1000 ''in'' None None,
      Capture ''{}'' (JObj [(''jsonrpc'', JStr ''2.0''), (''id'', JInt 11), (''method'', JStr ''tools/call'')])
        2000 ''in'' None None,
      Capture ''{}'' (JObj [(''jsonrpc'', JStr ''2.0''), (''id'', JInt 11), (''result'', JObj [])])
        3000 ''out'' (Some ''11'') None]"

text \<open>
  A request with id 5, then an inbound frame with the same id and no method, then the
  response with id 5.
\<close>

definition reused_id_session :: "op list" where
  "reused_id_session =
     [Capture ''{}'' (JObj [(''jsonrpc'', JStr ''2.0''), (''id'', JInt 5), (''method'', JStr ''tools/call'')])
        1000 ''in'' None None,
      Capture ''{}'' (JObj [(''jsonrpc'', JStr ''2.0''), (''id'', JInt 5), (''result'', JObj [])])
        2000 ''in'' None None,
      Capture ''{}'' (JObj [(''jsonrpc'', JStr ''2.0''), (''id'', JInt 5), (''result'', JObj [])])
        3000 ''out'' (Some ''5'') None]"

text \<open>An engine whose three collaborators all raise.\<close>

definition failing_engine :: engine where
  "failing_engine =
     on_event (\<lambda>ev. Some (Exception ''observer failed''))
       (set_db_sink (\<lambda>ev. Some (Exception ''disk full''))
          (set_ucw_bridge (\<lambda>ev. ((None, None, None, None), Some (Exception ''enrichment failed'')))
             CaptureEngine))"




section \<open>Properties of the message protocol\<close>

text \<open>
  C7. Round trip: a frame built by \<open>make_response\<close> validates as a response and a frame built
  by \<open>make_error\<close> validates as an error, for every request id, result, code, message and
  optional data.
\<close>

theorem validate_make_roundtrip:
  "validate_message (make_response rid res) = Inr ''response'' \<and>
   validate_message (make_error rid code msg dat) = Inr ''error''"
  by (simp add: validate_message_def make_response_def make_error_def
      dict_get_def dict_has_def Let_def)

text \<open>
  C10. Among maps with the right version tag, the method key has precedence: a map with a
  method key is a request when it has an id key and a notification when it has none,
  whatever else it carries (result and error keys included). Without a method key, a map
  with an id key is a response when it has a result key, also when it has an error key as
  well, and an error when it has an error key only. A map is rejected exactly when it has no
  method key and lacks the id key or both the result and the error key, so for what it
  lacks and never for what it carries: putting one more of the keys method, result and error
  into an accepted map leaves it accepted.
\<close>

theorem validate_method_precedence:
  assumes "dict_get d ''jsonrpc'' JNull = JStr JSONRPC_VERSION"
  shows "(dict_has d ''method'' \<longrightarrow>
            validate_message (JObj d) =
              Inr (if dict_has d ''id'' then ''request'' else ''notification'')) \<and>
         (\<not> dict_has d ''method'' \<and> dict_has d ''id'' \<and> dict_has d ''result'' \<longrightarrow>
            validate_message (JObj d) = Inr ''response'') \<and>
         (\<not> dict_has d ''method'' \<and> dict_has d ''id'' \<and> \<not> dict_has d ''result'' \<and>
          dict_has d ''error'' \<longrightarrow>
            validate_message (JObj d) = Inr ''error'') \<and>
         ((\<exists>e. validate_message (JObj d) = Inl e) \<longleftrightarrow>
            \<not> dict_has d ''method'' \<and>
            (\<not> dict_has d ''id'' \<or> \<not> dict_has d ''result'' \<and> \<not> dict_has d ''error'')) \<and>
         ((k = ''method'' \<or> k = ''result'' \<or> k = ''error'') \<and>
          (\<exists>kind. validate_message (JObj d) = Inr kind) \<longrightarrow>
            (\<exists>kind. validate_message (JObj ((k, v) # d)) = Inr kind))"
  using assms
  by (auto simp: validate_message_def dict_get_def dict_has_def Let_def
           split: option.splits if_splits)

text \<open>
  The theorem at a request that also carries a result and an error, which is a request, and
  at the same map without its method key, which is a response; neither is rejected.
\<close>

theorem validate_method_precedence_witness:
  "dict_get [(''jsonrpc'', JStr ''2.0''), (''method'', JStr ''ping''), (''id'', JInt 7),
             (''result'', JObj []), (''error'', JObj [])] ''jsonrpc'' JNull
     = JStr JSONRPC_VERSION \<and>
   dict_has [(''jsonrpc'', JStr ''2.0''), (''method'', JStr ''ping''), (''id'', JInt 7),
             (''result'', JObj []), (''error'', JObj [])] ''method'' \<and>
   validate_message (JObj [(''jsonrpc'', JStr ''2.0''), (''method'', JStr ''ping''),
             (''id'', JInt 7), (''result'', JObj []), (''error'', JObj [])]) = Inr ''request'' \<and>
   dict_get [(''jsonrpc'', JStr ''2.0''), (''id'', JInt 7),
             (''result'', JObj []), (''error'', JObj [])] ''jsonrpc'' JNull
     = JStr JSONRPC_VERSION \<and>
   \<not> dict_has [(''jsonrpc'', JStr ''2.0''), (''id'', JInt 7),
             (''result'', JObj []), (''error'', JObj [])] ''method'' \<and>
   validate_message (JObj [(''jsonrpc'', JStr ''2.0''), (''id'', JInt 7),
             (''result'', JObj []), (''error'', JObj [])]) = Inr ''response'' \<and>
   (\<exists>kind. validate_message (JObj ((''error'', JObj []) #
             [(''jsonrpc'', JStr ''2.0''), (''id'', JInt 7), (''result'', JObj [])])) = Inr kind)"
proof -
  let ?d = "[(''jsonrpc'', JStr ''2.0''), (''method'', JStr ''ping''), (''id'', JInt 7),
             (''result'', JObj []), (''error'', JObj [])]"
  let ?d' = "[(''jsonrpc'', JStr ''2.0''), (''id'', JInt 7),
             (''result'', JObj []), (''error'', JObj [])]"
  let ?d'' = "[(''jsonrpc'', JStr ''2.0''), (''id'', JInt 7), (''result'', JObj [])]"
  have a: "dict_get ?d ''jsonrpc'' JNull = JStr JSONRPC_VERSION"
    by (simp add: dict_get_def JSONRPC_VERSION_def)
  have b: "dict_has ?d ''method''"
    by (simp add: dict_has_def)
  have c: "dict_has ?d ''id''"
    by (simp add: dict_has_def)
  have a': "dict_get ?d' ''jsonrpc'' JNull = JStr JSONRPC_VERSION"
    by (simp add: dict_get_def JSONRPC_VERSION_def)
  have b': "\<not> dict_has ?d' ''method'' \<and> dict_has ?d' ''id'' \<and> dict_has ?d' ''result''"
    by (simp add: dict_has_def)
  have a'': "dict_get ?d'' ''jsonrpc'' JNull = JStr JSONRPC_VERSION"
    by (simp add: dict_get_def JSONRPC_VERSION_def)
  have b'': "\<not> dict_has ?d'' ''method'' \<and> dict_has ?d'' ''id'' \<and> dict_has ?d'' ''result''"
    by (simp add: dict_has_def)
  from validate_method_precedence [OF a] b c
  have 1: "validate_message (JObj ?d) = Inr ''request''" by simp
  from validate_method_precedence [OF a'] b'
  have 2: "validate_message (JObj ?d') = Inr ''response''" by blast
  from validate_method_precedence [OF a'', where k = "''error''" and v = "JObj []"] b''
  have 3: "\<exists>kind. validate_message (JObj ((''error'', JObj []) # ?d'')) = Inr kind" by blast
  from 1 2 3 a b a' b' show ?thesis by blast
qed


section \<open>Properties of the capture engine\<close>

subsection \<open>What one call of \<open>capture\<close> does to the engine\<close>


lemma track_lineage_new:
  "track_lineage env dir (length (heap e)) (e\<lparr>heap := heap e @ [ev]\<rparr>) =
     e\<lparr>heap := heap e @
          [if dir = ''in'' \<and> request_id ev \<noteq> JNull then ev\<lparr>turn := turn_counter e + 1\<rparr>
           else if dir = ''out'' \<and> request_id ev \<noteq> JNull
           then (case request_map e (py_str env (request_id ev)) of
                   None \<Rightarrow> ev
                 | Some p \<Rightarrow> ev\<lparr>parent_protocol_id := Some (event_id ((heap e @ [ev]) ! p)),
                               turn := turn ((heap e @ [ev]) ! p)\<rparr>)
           else ev],
       request_map := (if dir = ''in'' \<and> request_id ev \<noteq> JNull
                       then (request_map e)(py_str env (request_id ev) \<mapsto> length (heap e))
                       else request_map e),
       turn_counter := (if dir = ''in'' \<and> request_id ev \<noteq> JNull
                        then turn_counter e + 1 else turn_counter e)\<rparr>"
  by (simp add: track_lineage_def Let_def split: option.splits)

lemma enrich_fields:
  "turn_counter (snd (enrich a e)) = turn_counter e"
  "request_map (snd (enrich a e)) = request_map e"
  "events (snd (enrich a e)) = events e"
  "stats (snd (enrich a e)) = stats e"
  "ucw_bridge (snd (enrich a e)) = ucw_bridge e"
  "db_sink (snd (enrich a e)) = db_sink e"
  "event_callbacks (snd (enrich a e)) = event_callbacks e"
  "length (heap (snd (enrich a e))) = length (heap e)"
  by (simp_all add: enrich_def split: option.splits prod.splits)

lemma enrich_heap_other:
  "i \<noteq> a \<Longrightarrow> heap (snd (enrich a e)) ! i = heap e ! i"
  by (simp add: enrich_def split: option.splits prod.splits)

lemma enrich_heap_same:
  "a < length (heap e) \<Longrightarrow>
   turn (heap (snd (enrich a e)) ! a) = turn (heap e ! a) \<and>
   event_id (heap (snd (enrich a e)) ! a) = event_id (heap e ! a) \<and>
   parent_protocol_id (heap (snd (enrich a e)) ! a) = parent_protocol_id (heap e ! a) \<and>
   request_id (heap (snd (enrich a e)) ! a) = request_id (heap e ! a) \<and>
   direction (heap (snd (enrich a e)) ! a) = direction (heap e ! a)"
  by (simp add: enrich_def split: option.splits prod.splits)

lemma capture_eq:
  "capture env raw msg ts dir ppid err e =
     (case CaptureEvent env (length (heap e)) dir (stage_of dir) raw msg ts ppid err of
        Inl ex \<Rightarrow> (Some ex, e)
      | Inr event \<Rightarrow>
          (case fst (enrich (length (heap e)) (track_lineage env dir (length (heap e)) (e\<lparr>heap := heap e @ [event]\<rparr>))) of
             Some ex \<Rightarrow> (Some ex, staged env raw msg ts dir ppid err e)
           | None \<Rightarrow>
               (case persist (length (heap e)) ((staged env raw msg ts dir ppid err e)
                       \<lparr>events := events e @ [length (heap e)],
                        stats := count_stat ''total'' (count_stat (dir @ ''_'' @ (stage_of dir)) (stats e))\<rparr>) of
                  Some ex \<Rightarrow> (Some ex, (staged env raw msg ts dir ppid err e)
                       \<lparr>events := events e @ [length (heap e)],
                        stats := count_stat ''total'' (count_stat (dir @ ''_'' @ (stage_of dir)) (stats e))\<rparr>)
                | None \<Rightarrow> (notify (event_callbacks e) (heap (staged env raw msg ts dir ppid err e) ! length (heap e)),
                     (staged env raw msg ts dir ppid err e)
                       \<lparr>events := events e @ [length (heap e)],
                        stats := count_stat ''total'' (count_stat (dir @ ''_'' @ (stage_of dir)) (stats e))\<rparr>))))"
proof (cases "CaptureEvent env (length (heap e)) dir (stage_of dir) raw msg ts ppid err")
  case (Inl ex)
  then show ?thesis by (simp add: capture_def Let_def)
next
  case (Inr event)
  obtain r2 e2 where en: "enrich (length (heap e)) (track_lineage env dir (length (heap e)) (e\<lparr>heap := heap e @ [event]\<rparr>)) = (r2, e2)"
    by (cases "enrich (length (heap e)) (track_lineage env dir (length (heap e)) (e\<lparr>heap := heap e @ [event]\<rparr>))") 
  have st: "staged env raw msg ts dir ppid err e = e2"
    using Inr en by (simp add: staged_def)
  have ev: "events e2 = events e" "stats e2 = stats e" "event_callbacks e2 = event_callbacks e"
    using enrich_fields(3,4,7) [of "length (heap e)" "track_lineage env dir (length (heap e)) (e\<lparr>heap := heap e @ [event]\<rparr>)"] en
    by (simp_all add: track_lineage_new)
  show ?thesis
    using Inr en st ev
    by (simp add: capture_def Let_def split: option.splits)
qed


lemma staged_not_dict:
  "(\<And>d. msg \<noteq> JObj d) \<Longrightarrow> staged env raw msg ts dir ppid err e = e"
  by (cases msg) (auto simp: staged_def CaptureEvent_def)

lemma CaptureEvent_dict:
  "\<exists>ev. CaptureEvent env n dir stg raw (JObj d) ts ppid err = Inr ev \<and>
        event_id ev = uuid4_hex16 env n \<and> request_id ev = dict_get d ''id'' JNull \<and>
        turn ev = 0 \<and> parent_protocol_id ev = ppid \<and> direction ev = dir \<and>
        error ev = err \<and> raw_bytes ev = raw \<and> parsed ev = JObj d"
  by (simp add: CaptureEvent_def)

lemma staged_dict_frame:
  "length (heap (staged env raw (JObj d) ts dir ppid err e)) = Suc (length (heap e))"
  "turn_counter (staged env raw (JObj d) ts dir ppid err e) =
     (if dir = ''in'' \<and> dict_get d ''id'' JNull \<noteq> JNull then turn_counter e + 1 else turn_counter e)"
  "request_map (staged env raw (JObj d) ts dir ppid err e) =
     (if dir = ''in'' \<and> dict_get d ''id'' JNull \<noteq> JNull
      then (request_map e)(py_str env (dict_get d ''id'' JNull) \<mapsto> length (heap e))
      else request_map e)"
  "ucw_bridge (staged env raw (JObj d) ts dir ppid err e) = ucw_bridge e"
  "db_sink (staged env raw (JObj d) ts dir ppid err e) = db_sink e"
  "event_callbacks (staged env raw (JObj d) ts dir ppid err e) = event_callbacks e"
  "events (staged env raw (JObj d) ts dir ppid err e) = events e"
  "stats (staged env raw (JObj d) ts dir ppid err e) = stats e"
proof -
  obtain ev where ev: "CaptureEvent env (length (heap e)) dir (stage_of dir) raw (JObj d) ts ppid err = Inr ev"
    "request_id ev = dict_get d ''id'' JNull"
    using CaptureEvent_dict by blast
  show "length (heap (staged env raw (JObj d) ts dir ppid err e)) = Suc (length (heap e))"
    "turn_counter (staged env raw (JObj d) ts dir ppid err e) =
     (if dir = ''in'' \<and> dict_get d ''id'' JNull \<noteq> JNull then turn_counter e + 1 else turn_counter e)"
    "request_map (staged env raw (JObj d) ts dir ppid err e) =
     (if dir = ''in'' \<and> dict_get d ''id'' JNull \<noteq> JNull
      then (request_map e)(py_str env (dict_get d ''id'' JNull) \<mapsto> length (heap e))
      else request_map e)"
    "ucw_bridge (staged env raw (JObj d) ts dir ppid err e) = ucw_bridge e"
    "db_sink (staged env raw (JObj d) ts dir ppid err e) = db_sink e"
    "event_callbacks (staged env raw (JObj d) ts dir ppid err e) = event_callbacks e"
    "events (staged env raw (JObj d) ts dir ppid err e) = events e"
    "stats (staged env raw (JObj d) ts dir ppid err e) = stats e"
    using ev by (simp_all add: staged_def enrich_fields track_lineage_new)
qed

lemma staged_dict_old:
  "i < length (heap e) \<Longrightarrow> heap (staged env raw (JObj d) ts dir ppid err e) ! i = heap e ! i"
proof -
  assume i: "i < length (heap e)"
  obtain ev where ev: "CaptureEvent env (length (heap e)) dir (stage_of dir) raw (JObj d) ts ppid err = Inr ev"
    using CaptureEvent_dict by blast
  from i have "i \<noteq> length (heap e)" by simp
  then show ?thesis
    using ev i by (simp add: staged_def enrich_heap_other track_lineage_new nth_append)
qed

lemma staged_dict_new:
  fixes env raw d ts dir ppid err e
  defines "S \<equiv> staged env raw (JObj d) ts dir ppid err e"
  shows "event_id (heap S ! length (heap e)) = uuid4_hex16 env (length (heap e))"
    and "request_id (heap S ! length (heap e)) = dict_get d ''id'' JNull"
    and "direction (heap S ! length (heap e)) = dir"
    and "dir = ''in'' \<Longrightarrow> dict_get d ''id'' JNull \<noteq> JNull \<Longrightarrow>
           turn (heap S ! length (heap e)) = turn_counter e + 1"
    and "dir \<noteq> ''out'' \<Longrightarrow> parent_protocol_id (heap S ! length (heap e)) = ppid"
    and "dict_get d ''id'' JNull = JNull \<Longrightarrow>
           turn (heap S ! length (heap e)) = 0 \<and> parent_protocol_id (heap S ! length (heap e)) = ppid"
    and "dir = ''out'' \<Longrightarrow> request_map e (py_str env (dict_get d ''id'' JNull)) = None \<Longrightarrow>
           turn (heap S ! length (heap e)) = 0 \<and> parent_protocol_id (heap S ! length (heap e)) = ppid"
    and "dir = ''out'' \<Longrightarrow> dict_get d ''id'' JNull \<noteq> JNull \<Longrightarrow>
         request_map e (py_str env (dict_get d ''id'' JNull)) = Some p \<Longrightarrow> p < length (heap e) \<Longrightarrow>
           turn (heap S ! length (heap e)) = turn (heap e ! p) \<and>
           parent_protocol_id (heap S ! length (heap e)) = Some (event_id (heap e ! p))"
proof -
  obtain ev where ev: "CaptureEvent env (length (heap e)) dir (stage_of dir) raw (JObj d) ts ppid err = Inr ev"
    "event_id ev = uuid4_hex16 env (length (heap e))" "request_id ev = dict_get d ''id'' JNull"
    "turn ev = 0" "parent_protocol_id ev = ppid" "direction ev = dir"
    using CaptureEvent_dict by blast
  let ?T = "track_lineage env dir (length (heap e)) (e\<lparr>heap := heap e @ [ev]\<rparr>)"
  have S: "S = snd (enrich (length (heap e)) ?T)"
    using ev(1) by (simp add: S_def staged_def)
  have len: "length (heap e) < length (heap ?T)"
    by (simp add: track_lineage_new)
  note same = enrich_heap_same [OF len]
  show "event_id (heap S ! length (heap e)) = uuid4_hex16 env (length (heap e))"
    using ev same by (simp add: S track_lineage_new split: option.splits)
  show "request_id (heap S ! length (heap e)) = dict_get d ''id'' JNull"
    using ev same by (simp add: S track_lineage_new split: option.splits)
  show "direction (heap S ! length (heap e)) = dir"
    using ev same by (simp add: S track_lineage_new split: option.splits)
  show "dir = ''in'' \<Longrightarrow> dict_get d ''id'' JNull \<noteq> JNull \<Longrightarrow>
           turn (heap S ! length (heap e)) = turn_counter e + 1"
    using ev same by (simp add: S track_lineage_new split: option.splits)
  show "dir \<noteq> ''out'' \<Longrightarrow> parent_protocol_id (heap S ! length (heap e)) = ppid"
    using ev same by (simp add: S track_lineage_new split: option.splits)
  show "dict_get d ''id'' JNull = JNull \<Longrightarrow>
           turn (heap S ! length (heap e)) = 0 \<and> parent_protocol_id (heap S ! length (heap e)) = ppid"
    using ev same by (simp add: S track_lineage_new split: option.splits)
  show "dir = ''out'' \<Longrightarrow> request_map e (py_str env (dict_get d ''id'' JNull)) = None \<Longrightarrow>
           turn (heap S ! length (heap e)) = 0 \<and> parent_protocol_id (heap S ! length (heap e)) = ppid"
    using ev same by (simp add: S track_lineage_new split: option.splits)
  show "dir = ''out'' \<Longrightarrow> dict_get d ''id'' JNull \<noteq> JNull \<Longrightarrow>
         request_map e (py_str env (dict_get d ''id'' JNull)) = Some p \<Longrightarrow> p < length (heap e) \<Longrightarrow>
           turn (heap S ! length (heap e)) = turn (heap e ! p) \<and>
           parent_protocol_id (heap S ! length (heap e)) = Some (event_id (heap e ! p))"
    using ev same by (simp add: S track_lineage_new nth_append split: option.splits)
qed


lemma capture_snd_fields:
  "heap (snd (capture env raw msg ts dir ppid err e)) = heap (staged env raw msg ts dir ppid err e)"
  "turn_counter (snd (capture env raw msg ts dir ppid err e)) = turn_counter (staged env raw msg ts dir ppid err e)"
  "request_map (snd (capture env raw msg ts dir ppid err e)) = request_map (staged env raw msg ts dir ppid err e)"
  by (simp_all add: capture_eq staged_def split: sum.splits option.splits)

lemma frame_id_dict: "tracked c \<Longrightarrow> \<exists>raw d ts ppid err. c = Capture raw (JObj d) ts ''in'' ppid err \<and> dict_get d ''id'' JNull \<noteq> JNull"
  by (cases c rule: frame_id.cases) (auto simp: tracked_def)

lemma apply_op_heap_mono: "length (heap e) \<le> length (heap (apply_op env c e))"
proof (cases c)
  case (Capture raw msg ts dir ppid err)
  then show ?thesis
    by (cases msg) (simp_all add: capture_snd_fields staged_dict_frame staged_not_dict)
qed (simp_all add: set_ucw_bridge_def set_db_sink_def on_event_def)

lemma apply_op_old:
  assumes "i < length (heap e)"
  shows "heap (apply_op env c e) ! i = heap e ! i"
proof (cases c)
  case (Capture raw msg ts dir ppid err)
  then show ?thesis using assms
    by (cases msg) (simp_all add: capture_snd_fields staged_dict_old staged_not_dict)
qed (simp_all add: set_ucw_bridge_def set_db_sink_def on_event_def)

lemma apply_op_turn_counter:
  "turn_counter (apply_op env c e) = turn_counter e + (if tracked c then 1 else 0)"
proof (cases c)
  case (Capture raw msg ts dir ppid err)
  then show ?thesis
    by (cases msg) (simp_all add: capture_snd_fields staged_dict_frame staged_not_dict tracked_def)
qed (simp_all add: set_ucw_bridge_def set_db_sink_def on_event_def tracked_def)

lemma apply_op_request_map:
  "request_map (apply_op env c e) =
     (if tracked c then (request_map e)(py_str env (frame_id c) \<mapsto> length (heap e)) else request_map e)"
proof (cases c)
  case (Capture raw msg ts dir ppid err)
  then show ?thesis
    by (cases msg) (simp_all add: capture_snd_fields staged_dict_frame staged_not_dict tracked_def)
qed (simp_all add: set_ucw_bridge_def set_db_sink_def on_event_def tracked_def)

lemma apply_op_tracked_new:
  assumes "tracked c"
  shows "length (heap (apply_op env c e)) = Suc (length (heap e))"
    and "turn (heap (apply_op env c e) ! length (heap e)) = turn_counter e + 1"
    and "event_id (heap (apply_op env c e) ! length (heap e)) = uuid4_hex16 env (length (heap e))"
proof -
  from frame_id_dict [OF assms] obtain raw d ts ppid err
    where c: "c = Capture raw (JObj d) ts ''in'' ppid err" and d: "dict_get d ''id'' JNull \<noteq> JNull"
    by blast
  show "length (heap (apply_op env c e)) = Suc (length (heap e))"
    by (simp add: c capture_snd_fields staged_dict_frame)
  show "turn (heap (apply_op env c e) ! length (heap e)) = turn_counter e + 1"
    using d by (simp add: c capture_snd_fields staged_dict_new)
  show "event_id (heap (apply_op env c e) ! length (heap e)) = uuid4_hex16 env (length (heap e))"
    by (simp add: c capture_snd_fields staged_dict_new)
qed

lemma session_append: "session env (xs @ ys) e = session env ys (session env xs e)"
  by (induction xs arbitrary: e) simp_all

lemma session_snoc: "session env (xs @ [c]) e = apply_op env c (session env xs e)"
  by (simp add: session_append)

lemma session_heap_mono: "length (heap e) \<le> length (heap (session env cs e))"
proof (induction cs arbitrary: e)
  case (Cons c cs)
  have "length (heap e) \<le> length (heap (apply_op env c e))" by (rule apply_op_heap_mono)
  also have "\<dots> \<le> length (heap (session env cs (apply_op env c e)))" by (rule Cons.IH)
  finally show ?case by simp
qed simp

lemma session_old:
  "i < length (heap e) \<Longrightarrow> heap (session env cs e) ! i = heap e ! i"
proof (induction cs arbitrary: e)
  case (Cons c cs)
  have "i < length (heap (apply_op env c e))"
    using Cons.prems apply_op_heap_mono [of e env c] by simp
  then show ?case using Cons by (simp add: apply_op_old)
qed simp

lemma session_turn_counter:
  "turn_counter (session env cs e) = turn_counter e + tracked_count cs"
  by (induction cs arbitrary: e) (simp_all add: tracked_count_def apply_op_turn_counter)

lemma session_request_map_kept:
  "\<forall>c \<in> set cs. \<not> tracked_as env k c \<Longrightarrow> request_map (session env cs e) k = request_map e k"
  by (induction cs arbitrary: e) (auto simp: apply_op_request_map tracked_as_def)


lemma split_at: "n < length cs \<Longrightarrow> cs = take n cs @ cs ! n # drop (Suc n) cs"
  by (simp add: id_take_nth_drop)

lemma session_split:
  assumes "n < length cs"
  shows "session env cs e = session env (drop (Suc n) cs) (apply_op env (cs ! n) (session env (take n cs) e))"
proof -
  have "session env cs e = session env (take n cs @ cs ! n # drop (Suc n) cs) e"
    using split_at [OF assms] by simp
  then show ?thesis by (simp add: session_append)
qed

lemma event_of_tracked:
  assumes n: "n < length cs" and t: "tracked (cs ! n)"
  shows "turn (event_of env cs n) = tracked_count (take (Suc n) cs)"
    and "event_id (event_of env cs n) = uuid4_hex16 env (length (heap (session env (take n cs) CaptureEngine)))"
    and "length (heap (session env (take n cs) CaptureEngine)) < length (heap (session env cs CaptureEngine))"
proof -
  let ?e = "session env (take n cs) CaptureEngine"
  let ?e1 = "apply_op env (cs ! n) ?e"
  have fin: "session env cs CaptureEngine = session env (drop (Suc n) cs) ?e1"
    by (rule session_split [OF n])
  have len: "length (heap ?e) < length (heap ?e1)"
    by (simp add: apply_op_tracked_new(1) [OF t])
  have same: "heap (session env cs CaptureEngine) ! length (heap ?e) = heap ?e1 ! length (heap ?e)"
    unfolding fin by (rule session_old [OF len])
  have tc: "turn_counter ?e = tracked_count (take n cs)"
    by (simp add: session_turn_counter CaptureEngine_def)
  have cnt: "tracked_count (take (Suc n) cs) = tracked_count (take n cs) + 1"
    using n t by (simp add: take_Suc_conv_app_nth tracked_count_def)
  show "turn (event_of env cs n) = tracked_count (take (Suc n) cs)"
    by (simp add: event_of_def same apply_op_tracked_new(2) [OF t] tc cnt)
  show "event_id (event_of env cs n) = uuid4_hex16 env (length (heap ?e))"
    by (simp add: event_of_def same apply_op_tracked_new(3) [OF t])
  show "length (heap ?e) < length (heap (session env cs CaptureEngine))"
    unfolding fin using len session_heap_mono [of ?e1 env "drop (Suc n) cs"] by simp
qed

lemma tracked_count_append: "tracked_count (xs @ ys) = tracked_count xs + tracked_count ys"
  by (simp add: tracked_count_def)

lemma tracked_count_mono:
  assumes "m < n" "n < length cs" "tracked (cs ! n)"
  shows "tracked_count (take (Suc m) cs) < tracked_count (take (Suc n) cs)"
proof -
  have a: "take (Suc n) cs = take n cs @ [cs ! n]"
    using assms(2) by (simp add: take_Suc_conv_app_nth)
  have b: "take n cs = take (Suc m) (take n cs) @ drop (Suc m) (take n cs)"
    by (rule append_take_drop_id [symmetric])
  have c: "take (Suc m) (take n cs) = take (Suc m) cs"
    using assms(1) by (simp add: min_def)
  have "tracked_count (take n cs) =
      tracked_count (take (Suc m) cs) + tracked_count (drop (Suc m) (take n cs))"
    using b c tracked_count_append by metis
  moreover have "tracked_count (take (Suc n) cs) = tracked_count (take n cs) + 1"
    using assms(3) by (simp add: a tracked_count_def)
  moreover have "0 \<le> tracked_count (drop (Suc m) (take n cs))"
    by (simp add: tracked_count_def)
  ultimately show ?thesis by simp
qed


text \<open>
  C2 (as amended). The turn counter goes up by exactly one for every inbound captured frame
  that carries a non-null id, whether or not the frame has a method, and stays as it is for
  every other call; in a session that starts from a new engine it equals the number of such
  frames so far, the event of the \<open>n\<close>-th frame, when that frame is one of them, has as its
  turn the number of such frames up to and including it, and these turns increase strictly.
\<close>

theorem turn_counts_frames_with_id:
  "turn_counter (apply_op env c e) = turn_counter e + (if tracked c then 1 else 0) \<and>
   turn_counter (session env cs CaptureEngine) = tracked_count cs \<and>
   (n < length cs \<and> tracked (cs ! n) \<longrightarrow>
      turn (event_of env cs n) = tracked_count (take (Suc n) cs)) \<and>
   (m < n \<and> n < length cs \<and> tracked (cs ! m) \<and> tracked (cs ! n) \<longrightarrow>
      turn (event_of env cs m) < turn (event_of env cs n))"
proof (intro conjI impI)
  show "turn_counter (apply_op env c e) = turn_counter e + (if tracked c then 1 else 0)"
    by (rule apply_op_turn_counter)
  show "turn_counter (session env cs CaptureEngine) = tracked_count cs"
    by (simp add: session_turn_counter CaptureEngine_def)
  show "turn (event_of env cs n) = tracked_count (take (Suc n) cs)"
    if "n < length cs \<and> tracked (cs ! n)"
    using that event_of_tracked(1) by blast
  show "turn (event_of env cs m) < turn (event_of env cs n)"
    if h: "m < n \<and> n < length cs \<and> tracked (cs ! m) \<and> tracked (cs ! n)"
  proof -
    from h have "m < length cs" by simp
    with h show ?thesis
      by (simp add: event_of_tracked(1) tracked_count_mono)
  qed
qed

text \<open>
  The theorem at the session of a request, a notification and a second request: the two
  requests get turns 1 and 2, the notification gets none.
\<close>

theorem turn_counts_frames_with_id_witness:
  "tracked (sample_session ! 0) \<and> \<not> tracked (sample_session ! 1) \<and> tracked (sample_session ! 2) \<and>
   turn_counter (session sample_env sample_session CaptureEngine) = 2 \<and>
   turn (event_of sample_env sample_session 0) = 1 \<and>
   turn (event_of sample_env sample_session 2) = 2 \<and>
   turn (event_of sample_env sample_session 0) < turn (event_of sample_env sample_session 2)"
proof -
  have t0: "tracked (sample_session ! 0)" by code_simp
  have t1: "\<not> tracked (sample_session ! 1)" by code_simp
  have t2: "tracked (sample_session ! 2)" by code_simp
  have len: "length sample_session = 3" by code_simp
  have c: "tracked_count sample_session = 2" "tracked_count (take (Suc 0) sample_session) = 1"
    "tracked_count (take (Suc 2) sample_session) = 2" by code_simp+
  note T = turn_counts_frames_with_id [where env = sample_env and cs = sample_session
      and n = 2 and m = 0]
  note U = turn_counts_frames_with_id [where env = sample_env and cs = sample_session
      and n = 0 and m = 0]
  from T have tc: "turn_counter (session sample_env sample_session CaptureEngine) =
      tracked_count sample_session"
    by blast
  from T have "(0::nat) < 2 \<and> 2 < length sample_session \<and> tracked (sample_session ! 0) \<and>
      tracked (sample_session ! 2) \<longrightarrow>
      turn (event_of sample_env sample_session 0) < turn (event_of sample_env sample_session 2)"
    by blast
  with t0 t2 len have lt:
    "turn (event_of sample_env sample_session 0) < turn (event_of sample_env sample_session 2)"
    by simp
  from T have "2 < length sample_session \<and> tracked (sample_session ! 2) \<longrightarrow>
      turn (event_of sample_env sample_session 2) = tracked_count (take (Suc 2) sample_session)"
    by blast
  with t2 len have e2: "turn (event_of sample_env sample_session 2) = 2"
    by (simp add: c)
  from U have "0 < length sample_session \<and> tracked (sample_session ! 0) \<longrightarrow>
      turn (event_of sample_env sample_session 0) = tracked_count (take (Suc 0) sample_session)"
    by blast
  with t0 len have e0: "turn (event_of sample_env sample_session 0) = 1"
    by (simp add: c)
  from tc have tc: "turn_counter (session sample_env sample_session CaptureEngine) = 2"
    by (simp add: c)
  from t0 t1 t2 tc e0 e2 lt show ?thesis by blast
qed

text \<open>
  C2 as stated fails on a frame without a method: an inbound frame that carries an id and a
  result, and no method, takes the counter of a new engine from 0 to 1.
\<close>

theorem turn_counted_for_frame_without_method:
  "\<not> dict_has [(''jsonrpc'', JStr ''2.0''), (''id'', JInt 1), (''result'', JObj [])] ''method'' \<and>
   turn_counter CaptureEngine = 0 \<and>
   turn_counter (snd (capture sample_env ''{}''
      (JObj [(''jsonrpc'', JStr ''2.0''), (''id'', JInt 1), (''result'', JObj [])])
      1000 ''in'' None None CaptureEngine)) = 1"
  by code_simp

lemma lineage_latest:
  assumes n: "n < length cs" and t: "tracked_as env k (cs ! n)"
    and later: "\<forall>m. n < m \<and> m < length cs \<longrightarrow> \<not> tracked_as env k (cs ! m)"
  shows "request_map (session env cs e) k = Some (length (heap (session env (take n cs) e)))"
proof -
  let ?e = "session env (take n cs) e"
  have "\<forall>x \<in> set (drop (Suc n) cs). \<not> tracked_as env k x"
  proof
    fix x assume "x \<in> set (drop (Suc n) cs)"
    then obtain i where i: "i < length (drop (Suc n) cs)" "x = drop (Suc n) cs ! i"
      by (auto simp: in_set_conv_nth)
    then have "x = cs ! (Suc n + i)" "Suc n + i < length cs" by simp_all
    with later show "\<not> tracked_as env k x" by simp
  qed
  then have "request_map (session env cs e) k = request_map (apply_op env (cs ! n) ?e) k"
    unfolding session_split [OF n, of env e] by (rule session_request_map_kept)
  also have "\<dots> = Some (length (heap ?e))"
    using t by (simp add: apply_op_request_map tracked_as_def)
  finally show ?thesis .
qed


subsection \<open>Lineage\<close>

text \<open>
  C4 (as amended). In a session that starts from a new engine, an outbound frame whose id,
  stringified, is the key \<open>k\<close> takes its turn and its back-reference from the most recent
  inbound frame captured with a non-null id under \<open>k\<close> (frame \<open>n\<close>, with no later such frame):
  its turn is that frame's turn, its back-reference that frame's event id, whatever other
  frames were captured in between and in whatever order the responses are written.
\<close>


theorem response_correlates_with_latest:
  assumes n: "n < length cs" and t: "tracked_as env k (cs ! n)"
    and later: "\<forall>m. n < m \<and> m < length cs \<longrightarrow> \<not> tracked_as env k (cs ! m)"
    and d: "dict_get d ''id'' JNull \<noteq> JNull" and k: "py_str env (dict_get d ''id'' JNull) = k"
    and full: "full = cs @ Capture raw (JObj d) ts ''out'' ppid err # cs'"
  shows "turn (event_of env full (length cs)) = turn (event_of env full n) \<and>
         parent_protocol_id (event_of env full (length cs)) = Some (event_id (event_of env full n)) \<and>
         turn (event_of env full n) = tracked_count (take (Suc n) cs)"
proof -
  let ?e = "session env cs CaptureEngine"
  let ?a = "length (heap (session env (take n cs) CaptureEngine))"
  let ?out = "Capture raw (JObj d) ts ''out'' ppid err"
  let ?e1 = "apply_op env ?out ?e"
  from t have tr: "tracked (cs ! n)" by (simp add: tracked_as_def)
  have a: "?a < length (heap ?e)" by (rule event_of_tracked(3) [OF n tr])
  have rm: "request_map ?e k = Some ?a" by (rule lineage_latest [OF n t later])
  have new: "turn (heap ?e1 ! length (heap ?e)) = turn (heap ?e ! ?a) \<and>
             parent_protocol_id (heap ?e1 ! length (heap ?e)) = Some (event_id (heap ?e ! ?a))"
    using staged_dict_new(8) [where dir = "''out''" and d = d and env = env and e = ?e
        and p = ?a and raw = raw and ts = ts and ppid = ppid and err = err] d k rm a
    by (simp add: capture_snd_fields)
  have len1: "length (heap ?e1) = Suc (length (heap ?e))"
    by (simp add: capture_snd_fields staged_dict_frame)
  have fin: "session env full CaptureEngine = session env cs' ?e1"
    by (simp add: full session_append)
  have at_new: "heap (session env full CaptureEngine) ! length (heap ?e) = heap ?e1 ! length (heap ?e)"
    unfolding fin using len1 by (intro session_old) simp
  have "heap (session env full CaptureEngine) ! ?a = heap ?e1 ! ?a"
    unfolding fin using a len1 by (intro session_old) simp
  also have "\<dots> = heap ?e ! ?a" by (rule apply_op_old [OF a])
  finally have at_old: "heap (session env full CaptureEngine) ! ?a = heap ?e ! ?a" .
  have tk: "take n full = take n cs" "take (length cs) full = cs"
    using n by (simp_all add: full)
  have ev_new: "event_of env full (length cs) = heap ?e1 ! length (heap ?e)"
    by (simp add: event_of_def tk at_new)
  have ev_old: "event_of env full n = heap ?e ! ?a"
    by (simp add: event_of_def tk at_old)
  have "event_of env cs n = heap ?e ! ?a" by (simp add: event_of_def)
  then have "turn (heap ?e ! ?a) = tracked_count (take (Suc n) cs)"
    using event_of_tracked(1) [OF n tr, of env] by simp
  then show ?thesis using new by (simp add: ev_new ev_old)
qed

text \<open>
  The theorem at the scenario of the requests 10 and 11: after the response to 11 has been
  written, the response to 10 still gets the turn and the event id of request 10.
\<close>

theorem response_correlates_with_latest_witness:
  "tracked_as sample_env ''10'' (inflight_session ! 0) \<and>
   \<not> tracked_as sample_env ''10'' (inflight_session ! 1) \<and>
   \<not> tracked_as sample_env ''10'' (inflight_session ! 2) \<and>
   turn (event_of sample_env
           (inflight_session @
            [Capture ''{}'' (JObj [(''jsonrpc'', JStr ''2.0''), (''id'', JInt 10), (''result'', JObj [])])
               4000 ''out'' (Some ''10'') None]) 3) = 1 \<and>
   parent_protocol_id (event_of sample_env
           (inflight_session @
            [Capture ''{}'' (JObj [(''jsonrpc'', JStr ''2.0''), (''id'', JInt 10), (''result'', JObj [])])
               4000 ''out'' (Some ''10'') None]) 3) =
     Some (event_id (event_of sample_env
           (inflight_session @
            [Capture ''{}'' (JObj [(''jsonrpc'', JStr ''2.0''), (''id'', JInt 10), (''result'', JObj [])])
               4000 ''out'' (Some ''10'') None]) 0))"
proof -
  let ?d = "[(''jsonrpc'', JStr ''2.0''), (''id'', JInt 10), (''result'', JObj [])]"
  let ?full = "inflight_session @ [Capture ''{}'' (JObj ?d) 4000 ''out'' (Some ''10'') None]"
  have len: "length inflight_session = 3" by code_simp
  have n: "0 < length inflight_session" by (simp add: len)
  have t0: "tracked_as sample_env ''10'' (inflight_session ! 0)" by code_simp
  have t1: "\<not> tracked_as sample_env ''10'' (inflight_session ! 1)" by code_simp
  have t2: "\<not> tracked_as sample_env ''10'' (inflight_session ! 2)" by code_simp
  have later: "\<forall>m. 0 < m \<and> m < length inflight_session \<longrightarrow>
      \<not> tracked_as sample_env ''10'' (inflight_session ! m)"
  proof (intro allI impI)
    fix m assume "0 < m \<and> m < length inflight_session"
    then have "m = 1 \<or> m = 2" using len by arith
    then show "\<not> tracked_as sample_env ''10'' (inflight_session ! m)"
      using t1 t2 by auto
  qed
  have d: "dict_get ?d ''id'' JNull \<noteq> JNull" by code_simp
  have k: "py_str sample_env (dict_get ?d ''id'' JNull) = ''10''" by code_simp
  have c: "tracked_count (take (Suc 0) inflight_session) = 1" by code_simp
  note R = response_correlates_with_latest [OF n t0 later d k, where full = ?full and cs' = "[]"
      and raw = "''{}''" and ts = 4000 and ppid = "Some ''10''" and err = None, OF refl]
  have "turn (event_of sample_env ?full 3) = 1"
    using R by (simp add: len c)
  moreover have "parent_protocol_id (event_of sample_env ?full 3) =
      Some (event_id (event_of sample_env ?full 0))"
    using R by (simp add: len)
  ultimately show ?thesis using t0 t1 t2 by blast
qed

text \<open>
  C4 as stated fails when an inbound frame without a method reuses the id of a request: the
  request with id 5 has turn 1 and the first event id, yet the response with id 5 gets
  turn 2 and the event id of the later frame.
\<close>

theorem response_goes_to_latest_frame_under_id:
  "frame_has_method (reused_id_session ! 0) \<and> \<not> frame_has_method (reused_id_session ! 1) \<and>
   frame_id (reused_id_session ! 0) = JInt 5 \<and> frame_id (reused_id_session ! 2) = JInt 5 \<and>
   turn (event_of sample_env reused_id_session 0) = 1 \<and>
   turn (event_of sample_env reused_id_session 2) = 2 \<and>
   event_id (event_of sample_env reused_id_session 0) = ''0000000000000000'' \<and>
   parent_protocol_id (event_of sample_env reused_id_session 2) = Some ''0000000000000001''"
  by code_simp


subsection \<open>Failures of the collaborators\<close>


lemma swallow_only: "only_Exception r \<Longrightarrow> swallow r = None"
  by (cases r) (simp_all add: only_Exception_def)

lemma notify_only: "(\<And>cb. cb \<in> set cbs \<Longrightarrow> only_Exception (cb ev)) \<Longrightarrow> notify cbs ev = None"
  by (induction cbs) (simp_all add: swallow_only)

lemma stat_key_not_total: "dir @ ''_'' @ stg \<noteq> ''total''"
proof
  assume eq: "dir @ ''_'' @ stg = ''total''"
  have "CHR ''_'' \<in> set (dir @ ''_'' @ stg)" by simp
  then have "CHR ''_'' \<in> set ''total''" unfolding eq .
  then show False by simp
qed

lemma enrich_fst_none:
  assumes "\<And>b ev. ucw_bridge e = Some b \<Longrightarrow> only_Exception (snd (b ev))"
  shows "fst (enrich a e) = None"
proof (cases "ucw_bridge e")
  case None
  then show ?thesis by (simp add: enrich_def)
next
  case (Some b)
  obtain ls r where br: "b (heap e ! a) = (ls, r)" by (cases "b (heap e ! a)")
  with assms [OF Some, of "heap e ! a"] have "swallow r = None"
    by (simp add: swallow_only)
  then show ?thesis using Some br
    by (cases ls) (auto simp: enrich_def)
qed


text \<open>
  C5 (as amended). When the frame is a map and the enrichment hook, the sink and the observer
  callbacks return or raise exceptions of the \<^verbatim>\<open>Exception\<close> hierarchy, \<open>capture\<close> returns
  normally, and the event is appended to the in-memory list and counted in the total and in
  the counter of its direction and stage.
\<close>

theorem capture_swallows_Exceptions:
  assumes b0: "\<forall>b ev. ucw_bridge e = Some b \<longrightarrow> only_Exception (snd (b ev))"
    and s0: "\<forall>db ev. db_sink e = Some db \<longrightarrow> only_Exception (db ev)"
    and c0: "\<forall>cb ev. cb \<in> set (event_callbacks e) \<longrightarrow> only_Exception (cb ev)"
    and e': "e' = snd (capture env raw (JObj d) ts dir ppid err e)"
  shows "fst (capture env raw (JObj d) ts dir ppid err e) = None \<and>
         events e' = events e @ [length (heap e)] \<and>
         length (heap e') = Suc (length (heap e)) \<and>
         event_count e' = Suc (event_count e) \<and>
         stats e' ''total'' = stats e ''total'' + 1 \<and>
         stats e' (dir @ ''_'' @ stage_of dir) = stats e (dir @ ''_'' @ stage_of dir) + 1"
proof -
  note b = b0 [rule_format] and s = s0 [rule_format] and c = c0 [rule_format]
  obtain ev where ev: "CaptureEvent env (length (heap e)) dir (stage_of dir) raw (JObj d) ts ppid err = Inr ev"
    using CaptureEvent_dict by blast
  let ?T = "track_lineage env dir (length (heap e)) (e\<lparr>heap := heap e @ [ev]\<rparr>)"
  let ?S = "staged env raw (JObj d) ts dir ppid err e"
  let ?S3 = "?S\<lparr>events := events e @ [length (heap e)],
                 stats := count_stat ''total'' (count_stat (dir @ ''_'' @ stage_of dir) (stats e))\<rparr>"
  have en: "fst (enrich (length (heap e)) ?T) = None"
    by (rule enrich_fst_none) (rule b, simp add: track_lineage_new)
  have ds: "db_sink ?S3 = db_sink e" by (simp add: staged_dict_frame)
  have pe: "persist (length (heap e)) ?S3 = None"
  proof (cases "db_sink e")
    case None
    then show ?thesis unfolding persist_def ds by simp
  next
    case (Some db)
    then show ?thesis unfolding persist_def ds using s [OF Some] by (simp add: swallow_only)
  qed
  have no: "notify (event_callbacks e) (heap ?S ! length (heap e)) = None"
    using c by (rule notify_only)
  have cap: "capture env raw (JObj d) ts dir ppid err e = (None, ?S3)"
    using pe no by (simp add: capture_eq ev en)
  have st: "stats e' = count_stat ''total'' (count_stat (dir @ ''_'' @ stage_of dir) (stats e))"
    and evs: "events e' = events e @ [length (heap e)]"
    and hp: "length (heap e') = Suc (length (heap e))"
    by (simp_all add: e' cap staged_dict_frame)
  have ne: "dir @ ''_'' @ stage_of dir \<noteq> ''total''" by (rule stat_key_not_total)
  have "stats e' ''total'' = stats e ''total'' + 1"
    unfolding st using ne by (simp add: count_stat_def)
  moreover have "stats e' (dir @ ''_'' @ stage_of dir) = stats e (dir @ ''_'' @ stage_of dir) + 1"
    unfolding st using ne by (simp add: count_stat_def)
  moreover have "fst (capture env raw (JObj d) ts dir ppid err e) = None"
    by (simp add: cap)
  ultimately show ?thesis
    using evs hp by (simp add: event_count_def)
qed

text \<open>
  The theorem at an engine whose enrichment hook, sink and observer all raise: the call
  returns, the event is the first of the list and the counters read 1.
\<close>

theorem capture_swallows_Exceptions_witness:
  "ucw_bridge failing_engine \<noteq> None \<and> db_sink failing_engine \<noteq> None \<and>
   event_callbacks failing_engine \<noteq> [] \<and>
   fst (capture sample_env ''{}'' (JObj [(''jsonrpc'', JStr ''2.0''), (''id'', JInt 1), (''method'', JStr ''ping'')])
          1000 ''in'' None None failing_engine) = None \<and>
   events (snd (capture sample_env ''{}'' (JObj [(''jsonrpc'', JStr ''2.0''), (''id'', JInt 1), (''method'', JStr ''ping'')])
          1000 ''in'' None None failing_engine)) = [0] \<and>
   stats (snd (capture sample_env ''{}'' (JObj [(''jsonrpc'', JStr ''2.0''), (''id'', JInt 1), (''method'', JStr ''ping'')])
          1000 ''in'' None None failing_engine)) ''total'' = 1 \<and>
   stats (snd (capture sample_env ''{}'' (JObj [(''jsonrpc'', JStr ''2.0''), (''id'', JInt 1), (''method'', JStr ''ping'')])
          1000 ''in'' None None failing_engine)) ''in_received'' = 1"
proof -
  let ?d = "[(''jsonrpc'', JStr ''2.0''), (''id'', JInt 1), (''method'', JStr ''ping'')]"
  have b: "\<forall>b ev. ucw_bridge failing_engine = Some b \<longrightarrow> only_Exception (snd (b ev))"
    by (auto simp: failing_engine_def on_event_def set_db_sink_def set_ucw_bridge_def
        CaptureEngine_def only_Exception_def)
  have s: "\<forall>db ev. db_sink failing_engine = Some db \<longrightarrow> only_Exception (db ev)"
    by (auto simp: failing_engine_def on_event_def set_db_sink_def set_ucw_bridge_def
        CaptureEngine_def only_Exception_def)
  have c: "\<forall>cb ev. cb \<in> set (event_callbacks failing_engine) \<longrightarrow> only_Exception (cb ev)"
    by (auto simp: failing_engine_def on_event_def set_db_sink_def set_ucw_bridge_def
        CaptureEngine_def only_Exception_def)
  have att: "ucw_bridge failing_engine \<noteq> None" "db_sink failing_engine \<noteq> None"
    "event_callbacks failing_engine \<noteq> []"
    by (simp_all add: failing_engine_def on_event_def set_db_sink_def set_ucw_bridge_def
        CaptureEngine_def)
  have init: "events failing_engine = []" "heap failing_engine = []"
    "stats failing_engine ''total'' = 0" "stats failing_engine ''in_received'' = 0"
    by (simp_all add: failing_engine_def on_event_def set_db_sink_def set_ucw_bridge_def
        CaptureEngine_def)
  note W = capture_swallows_Exceptions [OF b s c refl, where env = sample_env and raw = "''{}''"
      and d = ?d and ts = 1000 and dir = "''in''" and ppid = None and err = None]
  from W att show ?thesis
    by (simp add: init stage_of_def)
qed

text \<open>
  C5 as stated fails on two inputs: for a frame that is a JSON list, building the event
  raises \<^verbatim>\<open>AttributeError\<close> out of \<open>capture\<close> and nothing is recorded; and an
  enrichment hook that raises outside the \<^verbatim>\<open>Exception\<close> hierarchy is not caught, and the
  event is not appended.
\<close>

theorem capture_raises_on_frame_that_is_no_map:
  "capture sample_env (''[]'' @ [CHR 0x0A]) (JList []) 1000 ''in'' None None CaptureEngine =
     (Some (AttributeError ''object has no attribute get''), CaptureEngine) \<and>
   fst (capture sample_env ''{}'' (JObj [(''jsonrpc'', JStr ''2.0''), (''method'', JStr ''ping'')])
          1000 ''in'' None None
          (set_ucw_bridge (\<lambda>ev. ((None, None, None, None), Some (BaseException ''SystemExit'')))
             CaptureEngine)) = Some (BaseException ''SystemExit'') \<and>
   events (snd (capture sample_env ''{}'' (JObj [(''jsonrpc'', JStr ''2.0''), (''method'', JStr ''ping'')])
          1000 ''in'' None None
          (set_ucw_bridge (\<lambda>ev. ((None, None, None, None), Some (BaseException ''SystemExit'')))
             CaptureEngine))) = []"
proof -
  have "capture sample_env (''[]'' @ [CHR 0x0A]) (JList []) 1000 ''in'' None None CaptureEngine =
     (Some (AttributeError ''object has no attribute get''), CaptureEngine)"
    by (simp add: capture_def CaptureEvent_def Let_def)
  moreover have "fst (capture sample_env ''{}'' (JObj [(''jsonrpc'', JStr ''2.0''), (''method'', JStr ''ping'')])
          1000 ''in'' None None
          (set_ucw_bridge (\<lambda>ev. ((None, None, None, None), Some (BaseException ''SystemExit'')))
             CaptureEngine)) = Some (BaseException ''SystemExit'')"
    by code_simp
  moreover have "events (snd (capture sample_env ''{}'' (JObj [(''jsonrpc'', JStr ''2.0''), (''method'', JStr ''ping'')])
          1000 ''in'' None None
          (set_ucw_bridge (\<lambda>ev. ((None, None, None, None), Some (BaseException ''SystemExit'')))
             CaptureEngine))) = []"
    by code_simp
  ultimately show ?thesis by blast
qed


section \<open>Properties of the transport\<close>


lemma session_wf:
  "request_map (session env cs CaptureEngine) k = Some p \<Longrightarrow>
   p < length (heap (session env cs CaptureEngine))"
proof (induction cs arbitrary: k p rule: rev_induct)
  case Nil
  then show ?case by (simp add: CaptureEngine_def)
next
  case (snoc c cs)
  let ?e = "session env cs CaptureEngine"
  have mono: "length (heap ?e) \<le> length (heap (apply_op env c ?e))"
    by (rule apply_op_heap_mono)
  show ?case
  proof (cases "tracked c \<and> py_str env (frame_id c) = k")
    case True
    then have "p = length (heap ?e)"
      using snoc.prems by (simp add: session_snoc apply_op_request_map)
    moreover have "length (heap (apply_op env c ?e)) = Suc (length (heap ?e))"
      using True apply_op_tracked_new(1) by blast
    ultimately show ?thesis by (simp add: session_snoc)
  next
    case False
    then have "request_map ?e k = Some p"
      using snoc.prems by (auto simp: session_snoc apply_op_request_map split: if_splits)
    then have "p < length (heap ?e)" by (rule snoc.IH)
    with mono show ?thesis by (simp add: session_snoc)
  qed
qed


text \<open>
  C3 (as amended). For a frame written by \<open>write_message\<close> in a session of the engine: when
  the lineage map has an entry under the frame's stringified id, the back-reference of the
  outbound event is the event id of the tracked inbound event; when the frame has no id or
  the map has no such entry, the back-reference is the tag the transport passes,
  \<^verbatim>\<open>str(request_id)\<close> if a request id was given and nothing otherwise.
\<close>

theorem back_reference_of_written_frame:
  assumes out: "stdout t = Some out"
    and e: "e = session env cs CaptureEngine"
    and w: "write_message env (capture env) (JObj d) rid (t, e) = (r, t', e')"
    and key: "k = py_str env (dict_get d ''id'' JNull)"
  shows "(dict_get d ''id'' JNull \<noteq> JNull \<and> request_map e k = Some p \<longrightarrow>
            parent_protocol_id (heap e' ! length (heap e)) = Some (event_id (heap e ! p))) \<and>
         (dict_get d ''id'' JNull = JNull \<or> request_map e k = None \<longrightarrow>
            parent_protocol_id (heap e' ! length (heap e)) =
              (if rid \<noteq> JNull then Some (py_str env rid) else None))"
proof -
  let ?raw = "json_dumps env (JObj d) @ [CHR 0x0A]"
  let ?tag = "if rid \<noteq> JNull then Some (py_str env rid) else None"
  let ?S = "staged env ?raw (JObj d) (time_ns env (clock t)) ''out'' ?tag None e"
  have "e' = snd (capture env ?raw (JObj d) (time_ns env (clock t)) ''out'' ?tag None e)"
    using w out by (auto simp: write_message_def Let_def split: prod.splits option.splits)
  then have hp: "heap e' = heap ?S" by (simp add: capture_snd_fields)
  show ?thesis
  proof (intro conjI impI)
    assume a: "dict_get d ''id'' JNull \<noteq> JNull \<and> request_map e k = Some p"
    then have "p < length (heap e)" using session_wf e by blast
    with a show "parent_protocol_id (heap e' ! length (heap e)) = Some (event_id (heap e ! p))"
      using staged_dict_new(8) [where dir = "''out''" and d = d and env = env and e = e
        and p = p and raw = ?raw and ts = "time_ns env (clock t)" and ppid = ?tag and err = None]
      by (simp add: hp key)
  next
    assume "dict_get d ''id'' JNull = JNull \<or> request_map e k = None"
    then show "parent_protocol_id (heap e' ! length (heap e)) = ?tag"
    proof
      assume "dict_get d ''id'' JNull = JNull"
      then show ?thesis
        using staged_dict_new(6) [where d = d and env = env and e = e and dir = "''out''"
          and raw = ?raw and ts = "time_ns env (clock t)" and ppid = ?tag and err = None]
        by (simp add: hp)
    next
      assume "request_map e k = None"
      then show ?thesis
        using staged_dict_new(7) [where d = d and env = env and e = e and dir = "''out''"
          and raw = ?raw and ts = "time_ns env (clock t)" and ppid = ?tag and err = None]
        by (simp add: hp key)
    qed
  qed
qed

text \<open>
  The theorem at a session with the request 1, when its response is written: the
  back-reference is the event id of the request.
\<close>

theorem back_reference_of_written_frame_witness:
  "request_map (session sample_env
        [Capture ''{}'' (JObj [(''jsonrpc'', JStr ''2.0''), (''id'', JInt 1), (''method'', JStr ''ping'')])
           1000 ''in'' None None] CaptureEngine) ''1'' = Some 0 \<and>
   parent_protocol_id
     (heap (snd (snd (write_message sample_env (capture sample_env)
                        (JObj [(''jsonrpc'', JStr ''2.0''), (''id'', JInt 1), (''result'', JObj [])])
                        (JInt 1)
                        (start RawStdioTransport,
                         session sample_env
                           [Capture ''{}'' (JObj [(''jsonrpc'', JStr ''2.0''), (''id'', JInt 1), (''method'', JStr ''ping'')])
                              1000 ''in'' None None] CaptureEngine)))) ! 1) = Some ''0000000000000000''"
proof -
  let ?cs = "[Capture ''{}'' (JObj [(''jsonrpc'', JStr ''2.0''), (''id'', JInt 1), (''method'', JStr ''ping'')])
                1000 ''in'' None None]"
  let ?e = "session sample_env ?cs CaptureEngine"
  let ?d = "[(''jsonrpc'', JStr ''2.0''), (''id'', JInt 1), (''result'', JObj [])]"
  let ?w = "write_message sample_env (capture sample_env) (JObj ?d) (JInt 1) (start RawStdioTransport, ?e)"
  have out: "stdout (start RawStdioTransport) = Some []"
    by (simp add: start_def)
  have w: "?w = (fst ?w, fst (snd ?w), snd (snd ?w))" by simp
  have k: "''1'' = py_str sample_env (dict_get ?d ''id'' JNull)" by code_simp
  have d: "dict_get ?d ''id'' JNull \<noteq> JNull" by code_simp
  have rm: "request_map ?e ''1'' = Some 0" by code_simp
  have len: "length (heap ?e) = 1" by code_simp
  have id0: "event_id (heap ?e ! 0) = ''0000000000000000''" by code_simp
  note B = back_reference_of_written_frame [OF out refl w k, where p = 0]
  from B d rm have "parent_protocol_id (heap (snd (snd ?w)) ! length (heap ?e)) =
      Some (event_id (heap ?e ! 0))"
    by blast
  then have "parent_protocol_id (heap (snd (snd ?w)) ! 1) = Some ''0000000000000000''"
    unfolding len id0 .
  with rm show ?thesis by (rule conjI)
qed

text \<open>
  C3 as stated fails when a frame is written with a request id that the lineage map does not
  hold: on a new engine the outbound event with id 7 has the back-reference \<open>''7''\<close>.
\<close>

theorem untracked_response_keeps_tag:
  "request_map CaptureEngine (py_str sample_env (JInt 7)) = None \<and>
   parent_protocol_id
     (heap (snd (snd (write_message sample_env (capture sample_env)
                        (JObj [(''jsonrpc'', JStr ''2.0''), (''id'', JInt 7), (''result'', JObj [])])
                        (JInt 7) (start RawStdioTransport, CaptureEngine)))) ! 0) = Some ''7''"
  by code_simp


text \<open>
  What \<open>close\<close> changes for the two operations, in every state of the transport: nothing
  but the value of the \<open>running\<close> flag in the transport they return. Neither operation
  reads the flag.
\<close>

lemma close_does_not_gate_io:
  "read_message env oc inp (close t, s) =
     (case read_message env oc inp (t, s) of (r, rest, t', s') \<Rightarrow> (r, rest, close t', s')) \<and>
   write_message env oc m rid (close t, s) =
     (case write_message env oc m rid (t, s) of (r, t', s') \<Rightarrow> (r, close t', s'))"
proof
  show "read_message env oc inp (close t, s) =
     (case read_message env oc inp (t, s) of (r, rest, t', s') \<Rightarrow> (r, rest, close t', s'))"
    by (simp add: read_message_def close_def Let_def
        split: prod.splits sum.splits option.splits exn.splits)
  show "write_message env oc m rid (close t, s) =
     (case write_message env oc m rid (t, s) of (r, t', s') \<Rightarrow> (r, close t', s'))"
    by (simp add: write_message_def close_def Let_def split: prod.splits option.splits)
qed

text \<open>
  C8, evaluated where the code departs from it. On a transport that was started and then
  closed, the flag \<open>running\<close> is cleared, and yet \<open>write_message\<close> writes the frame to
  stdout and \<open>read_message\<close> takes the next line from stdin and returns it: neither is a
  no-op and neither fails.
\<close>

theorem closed_transport_still_reads_and_writes:
  \<open>running (close (start RawStdioTransport)) = False \<and>
   stdout (fst (snd (write_message sample_env (capture sample_env)
              (JObj [(''jsonrpc'', JStr ''2.0''), (''id'', JInt 1), (''result'', JObj [])])
              (JInt 1) (close (start RawStdioTransport), CaptureEngine)))) =
     Some [''{"jsonrpc":"2.0","id":1,"result":{}}'' @ [CHR 0x0A]] \<and>
   fst (read_message sample_env (capture sample_env)
          [''{"jsonrpc":"2.0","id":1,"method":"ping"}'' @ [CHR 0x0A]]
          (close (start RawStdioTransport), CaptureEngine)) =
     Inr (Some (''{"jsonrpc":"2.0","id":1,"method":"ping"}'' @ [CHR 0x0A],
                JObj [(''jsonrpc'', JStr ''2.0''), (''id'', JInt 1), (''method'', JStr ''ping'')])) \<and>
   fst (snd (read_message sample_env (capture sample_env)
          [''{"jsonrpc":"2.0","id":1,"method":"ping"}'' @ [CHR 0x0A]]
          (close (start RawStdioTransport), CaptureEngine))) = []\<close>
  by code_simp


section \<open>Properties of the router\<close>










section \<open>Properties of the orchestrator\<close>

text \<open>
  C9. A second \<open>shutdown\<close> returns at once and leaves the state of the first unchanged:
  nothing is cancelled or closed again, and it does not fail, even when the first call
  closed the database.
\<close>

theorem shutdown_idempotent:
  "shutdown (snd (shutdown s)) = (None, snd (shutdown s)) \<and> \<not> srv_running (snd (shutdown s))"
proof -
  have "\<not> srv_running (snd (shutdown s))"
    by (simp add: shutdown_def Let_def split: option.splits task.splits prod.splits)
  then show ?thesis by (simp add: shutdown_def)
qed


text \<open>
  A line that fails to parse is captured with an error marker and \<open>read_message\<close> returns
  "no frame", as it does at the end of input; \<open>serve\<close> stops at "no frame", so the lines
  after a malformed one are never read.
\<close>

lemma read_message_parse_error:
  assumes "reader t" and "json_loads env raw = Inl (JSONDecodeError m)"
    and "raw \<noteq> []" and "int (length (chunk raw)) \<le> 2 ^ 16"
  shows "read_message env oc (raw # rest) (t, s) =
     (case oc raw (JObj []) (time_ns env (clock t)) ''in'' None (Some (''JSON parse error: '' @ m)) s of
        (Some ex, s') \<Rightarrow> (read_failed ex, rest, t\<lparr>clock := Suc (clock t)\<rparr>, s')
      | (None, s') \<Rightarrow> (Inr None, rest, t\<lparr>clock := Suc (clock t)\<rparr>, s'))"
  using assms by (simp add: read_message_def Let_def)

lemma init_db_background_transport:
  "srv_transport (snd (init_db_background sv s)) = srv_transport s"
  by (simp add: init_db_background_def split: prod.splits option.splits)

lemma serve_stops_at_malformed_line:
  assumes run: "srv_running s" and rd: "reader (srv_transport s)"
    and bad: "json_loads env raw = Inl (JSONDecodeError m)"
    and ne: "raw \<noteq> []" and len: "int (length (chunk raw)) \<le> 2 ^ 16"
  shows "fst (snd (serve env sv n (raw # rest) s)) = rest"
proof -
  define s0 where "s0 = (if init_scheduled sv n \<and> srv_db_init_task s = Some Pending
                  then snd (init_db_background sv s) else s)"
  have t0: "reader (srv_transport s0)"
    using rd by (simp add: s0_def init_db_background_transport)
  obtain r e' where c: "capture env raw (JObj []) (time_ns env (clock (srv_transport s0))) ''in'' None
      (Some (''JSON parse error: '' @ m)) (srv_capture s0) = (r, e')"
    by (cases "capture env raw (JObj []) (time_ns env (clock (srv_transport s0))) ''in'' None
      (Some (''JSON parse error: '' @ m)) (srv_capture s0)")
  have "\<exists>x t e. read_message env (capture env) (raw # rest) (srv_transport s0, srv_capture s0) = (x, rest, t, e)
      \<and> x \<noteq> Inr (Some (raw, JObj [])) \<and> (\<forall>y. x \<noteq> Inr (Some y))"
    unfolding read_message_parse_error [OF t0 bad ne len] c
    by (cases r) (auto simp: read_failed_def)
  then obtain x t e where rm: "read_message env (capture env) (raw # rest) (srv_transport s0, srv_capture s0) = (x, rest, t, e)"
    and nf: "\<forall>y. x \<noteq> Inr (Some y)" by blast
  show ?thesis
  proof (cases x)
    case (Inl ex)
    then show ?thesis
      using run rm by (subst serve.simps) (simp add: s0_def [symmetric] Let_def)
  next
    case (Inr got)
    with nf have "got = None" by (cases got) auto
    with Inr show ?thesis
      using run rm by (subst serve.simps) (simp add: s0_def [symmetric] Let_def)
  qed
qed

text \<open>
  C1, evaluated where the code departs from it. On the input of a malformed line followed
  by a ping request, the malformed line is captured with its error, the loop ends as at end
  of input, the server shuts down, the request stays unread and nothing is written, though
  the same request alone on the input is answered.
\<close>

theorem malformed_line_ends_session:
  \<open>fst (run sample_env sample_services
          [''not json'' @ [CHR 0x0A], ''{"jsonrpc":"2.0","id":1,"method":"ping"}'' @ [CHR 0x0A]]
          RawMCPServer) = None \<and>
   fst (snd (run sample_env sample_services
          [''not json'' @ [CHR 0x0A], ''{"jsonrpc":"2.0","id":1,"method":"ping"}'' @ [CHR 0x0A]]
          RawMCPServer)) = [''{"jsonrpc":"2.0","id":1,"method":"ping"}'' @ [CHR 0x0A]] \<and>
   events (srv_capture (snd (snd (run sample_env sample_services
          [''not json'' @ [CHR 0x0A], ''{"jsonrpc":"2.0","id":1,"method":"ping"}'' @ [CHR 0x0A]]
          RawMCPServer)))) = [0] \<and>
   error (heap (srv_capture (snd (snd (run sample_env sample_services
          [''not json'' @ [CHR 0x0A], ''{"jsonrpc":"2.0","id":1,"method":"ping"}'' @ [CHR 0x0A]]
          RawMCPServer)))) ! 0) =
     Some ''JSON parse error: Expecting value: line 1 column 1 (char 0)'' \<and>
   stdout (srv_transport (snd (snd (run sample_env sample_services
          [''not json'' @ [CHR 0x0A], ''{"jsonrpc":"2.0","id":1,"method":"ping"}'' @ [CHR 0x0A]]
          RawMCPServer)))) = Some [] \<and>
   srv_running (snd (snd (run sample_env sample_services
          [''not json'' @ [CHR 0x0A], ''{"jsonrpc":"2.0","id":1,"method":"ping"}'' @ [CHR 0x0A]]
          RawMCPServer))) = False \<and>
   stdout (srv_transport (snd (snd (run sample_env sample_services
          [''{"jsonrpc":"2.0","id":1,"method":"ping"}'' @ [CHR 0x0A]]
          RawMCPServer)))) = Some [''{"jsonrpc":"2.0","id":1,"result":{}}'' @ [CHR 0x0A]]\<close>
  by code_simp

end
